theory Spec2Isabelle
  imports Main
begin

section \<open>JavaScript values used by the scripts and helpers\<close>

text \<open>
  This theory models the scripts and test helpers of the Vue TDD scaffold: the helper
  \<open>getEmittedEvent\<close>, the storage mock of the test setup, the scaffold generator
  \<open>create-tdd-component.js\<close>, the batch generator \<open>generate-tests-from-issue.js\<close> and the
  interactive TDD feature CLI. The definitions come first, the properties after them.

  Strings are byte strings (UTF-8). An argument or variable that may be \<open>undefined\<close>
  is a \<open>string option\<close>. The only run-time error the modelled code can raise by itself
  is a \<open>TypeError\<close> (a property read on \<open>undefined\<close>); errors thrown by library calls
  carry a message and a stack.
\<close>

datatype js_error = TypeError

record js_exn =
  message :: string
  stack :: string

text \<open>\<open>!s\<close> for \<open>s : string | undefined\<close>: true for \<open>undefined\<close> and for the empty string.\<close>

definition falsy :: "string option \<Rightarrow> bool" where
  "falsy s = (case s of None \<Rightarrow> True | Some v \<Rightarrow> v = [])"

text \<open>\<open>xs[i]\<close> on an array: \<open>undefined\<close> (None) outside \<open>0 .. length - 1\<close>.\<close>

definition array_get :: "'a list \<Rightarrow> int \<Rightarrow> 'a option" where
  "array_get xs i = (if 0 \<le> i \<and> i < int (length xs) then Some (xs ! nat i) else None)"

text \<open>
  \<open>a[i]\<close> where \<open>a\<close> itself may be \<open>undefined\<close>: reading a property of \<open>undefined\<close>
  throws a TypeError.
\<close>

definition js_index :: "'a list option \<Rightarrow> int \<Rightarrow> js_error + 'a option" where
  "js_index a i = (case a of None \<Rightarrow> Inl TypeError | Some xs \<Rightarrow> Inr (array_get xs i))"

section \<open>src/test/helpers/vue-testing.ts: getEmittedEvent\<close>

text \<open>
  A payload element is any JavaScript value, \<open>undefined\<close> included. The wrapper is
  modelled by what \<open>wrapper.emitted(eventName)\<close> returns: the list of emissions of that
  event (each the list of its arguments), or \<open>undefined\<close> if it was never emitted.
  The index is an integer; a fractional index names no element of an array, as an index
  out of range does.
\<close>

datatype 'v js = Undefined | Val 'v

record 'v VueWrapper =
  emitted :: "string \<Rightarrow> 'v js list list option"

definition getEmittedEvent :: "'v VueWrapper \<Rightarrow> string \<Rightarrow> int \<Rightarrow> js_error + 'v js" where
  "getEmittedEvent wrapper eventName index =
     (let em = emitted wrapper eventName in
      if em = None then Inr Undefined
      else
        (case js_index em index of
           Inl err \<Rightarrow> Inl err
         | Inr None \<Rightarrow> Inr Undefined
         | Inr (Some emission) \<Rightarrow>
             (case js_index (Some emission) 0 of
                Inl err \<Rightarrow> Inl err
              | Inr None \<Rightarrow> Inr Undefined
              | Inr (Some v) \<Rightarrow> Inr v)))"

section \<open>src/test/setup.ts: the storage mock\<close>

text \<open>
  \<open>store\<close> is a plain object: its own properties are the keys that were set, and a read
  of any other key goes to \<open>Object.prototype\<close>. The members of \<open>Object.prototype\<close> are
  functions (truthy); \<open>__proto__\<close> is an accessor: reading it gives the prototype object,
  and assigning a string to it is ignored.
\<close>

type_synonym js_object = "string \<Rightarrow> string option"

definition object_prototype_keys :: "string list" where
  "object_prototype_keys =
     [''constructor'', ''__defineGetter__'', ''__defineSetter__'', ''hasOwnProperty'',
      ''__lookupGetter__'', ''__lookupSetter__'', ''isPrototypeOf'',
      ''propertyIsEnumerable'', ''toString'', ''valueOf'', ''__proto__'',
      ''toLocaleString'']"

datatype item = Null | Str string | Inherited string

text \<open>\<open>store[key]\<close>: None is \<open>undefined\<close>.\<close>

definition get_property :: "js_object \<Rightarrow> string \<Rightarrow> item option" where
  "get_property obj key =
     (if key = ''__proto__'' then Some (Inherited key)
      else
        (case obj key of
           Some v \<Rightarrow> Some (Str v)
         | None \<Rightarrow> if key \<in> set object_prototype_keys then Some (Inherited key) else None))"

text \<open>\<open>store[key] = value\<close> for a string value.\<close>

definition set_property :: "js_object \<Rightarrow> string \<Rightarrow> string \<Rightarrow> js_object" where
  "set_property obj key v = (if key = ''__proto__'' then obj else obj(key \<mapsto> v))"

text \<open>\<open>delete store[key]\<close>.\<close>

definition delete_property :: "js_object \<Rightarrow> string \<Rightarrow> js_object" where
  "delete_property obj key = obj(key := None)"

text \<open>\<open>x || null\<close>: \<open>undefined\<close> and the empty string are falsy.\<close>

definition or_null :: "item option \<Rightarrow> item" where
  "or_null x =
     (case x of
        None \<Rightarrow> Null
      | Some Null \<Rightarrow> Null
      | Some (Str v) \<Rightarrow> if v = [] then Null else Str v
      | Some (Inherited k) \<Rightarrow> Inherited k)"

text \<open>
  The test window: a heap of mock objects (each is its closure variable \<open>store\<close>) and
  the window's properties, which hold references into the heap.
\<close>

record test_window =
  heap :: "nat \<Rightarrow> js_object option"
  next_ref :: nat
  window_props :: "string \<Rightarrow> nat option"

definition empty_window :: test_window where
  "empty_window = \<lparr> heap = Map.empty, next_ref = 0, window_props = Map.empty \<rparr>"

text \<open>Lines 77-107 of setup.ts: one mock object, installed under both names.\<close>

definition install_storage_mocks :: "test_window \<Rightarrow> test_window" where
  "install_storage_mocks w =
     (let localStorageMock = next_ref w;
          w1 = w\<lparr> heap := (heap w)(localStorageMock \<mapsto> Map.empty),
                  next_ref := Suc (next_ref w) \<rparr>;
          w2 = w1\<lparr> window_props := (window_props w1)(''localStorage'' \<mapsto> localStorageMock) \<rparr>
      in w2\<lparr> window_props := (window_props w2)(''sessionStorage'' \<mapsto> localStorageMock) \<rparr>)"

text \<open>
  \<open>window[name]\<close> resolved to the store of the object it refers to; a call through an
  undefined property throws.
\<close>

definition storage_of :: "test_window \<Rightarrow> string \<Rightarrow> js_error + (nat \<times> js_object)" where
  "storage_of w name =
     (case window_props w name of
        None \<Rightarrow> Inl TypeError
      | Some r \<Rightarrow> (case heap w r of None \<Rightarrow> Inl TypeError | Some st \<Rightarrow> Inr (r, st)))"

definition getItem :: "test_window \<Rightarrow> string \<Rightarrow> string \<Rightarrow> js_error + item" where
  "getItem w name key =
     (case storage_of w name of
        Inl err \<Rightarrow> Inl err
      | Inr (r, st) \<Rightarrow> Inr (or_null (get_property st key)))"

definition setItem :: "test_window \<Rightarrow> string \<Rightarrow> string \<Rightarrow> string \<Rightarrow> js_error + test_window" where
  "setItem w name key v =
     (case storage_of w name of
        Inl err \<Rightarrow> Inl err
      | Inr (r, st) \<Rightarrow> Inr (w\<lparr> heap := (heap w)(r \<mapsto> set_property st key v) \<rparr>))"

definition removeItem :: "test_window \<Rightarrow> string \<Rightarrow> string \<Rightarrow> js_error + test_window" where
  "removeItem w name key =
     (case storage_of w name of
        Inl err \<Rightarrow> Inl err
      | Inr (r, st) \<Rightarrow> Inr (w\<lparr> heap := (heap w)(r \<mapsto> delete_property st key) \<rparr>))"

definition clear :: "test_window \<Rightarrow> string \<Rightarrow> js_error + test_window" where
  "clear w name =
     (case storage_of w name of
        Inl err \<Rightarrow> Inl err
      | Inr (r, st) \<Rightarrow> Inr (w\<lparr> heap := (heap w)(r \<mapsto> Map.empty) \<rparr>))"

text \<open>A test's use of the two storages: any sequence of mutating calls.\<close>

datatype storage_call =
  SetItem string string string
  | RemoveItem string string
  | Clear string

fun call_storage :: "test_window \<Rightarrow> storage_call \<Rightarrow> js_error + test_window" where
  "call_storage w (SetItem name key v) = setItem w name key v"
| "call_storage w (RemoveItem name key) = removeItem w name key"
| "call_storage w (Clear name) = clear w name"

fun call_all :: "test_window \<Rightarrow> storage_call list \<Rightarrow> js_error + test_window" where
  "call_all w [] = Inr w"
| "call_all w (c # cs) =
     (case call_storage w c of Inl err \<Rightarrow> Inl err | Inr w' \<Rightarrow> call_all w' cs)"

text \<open>The names a call sequence passes to \<open>setItem\<close> as keys.\<close>

fun keys_set :: "storage_call list \<Rightarrow> string set" where
  "keys_set [] = {}"
| "keys_set (SetItem name key v # cs) = insert key (keys_set cs)"
| "keys_set (c # cs) = keys_set cs"

definition storage_names :: "string set" where
  "storage_names = {''localStorage'', ''sessionStorage''}"

fun call_name :: "storage_call \<Rightarrow> string" where
  "call_name (SetItem name key v) = name"
| "call_name (RemoveItem name key) = name"
| "call_name (Clear name) = name"

text \<open>
  The invariant of the installed mock: both window names refer to one heap object, whose
  own keys are among \<open>K\<close>.
\<close>

definition shared_store :: "test_window \<Rightarrow> string set \<Rightarrow> bool" where
  "shared_store w K =
     (\<exists>r st. window_props w ''localStorage'' = Some r \<and> window_props w ''sessionStorage'' = Some r
          \<and> heap w r = Some st \<and> dom st \<subseteq> K)"

section \<open>The Node.js runtime as the scripts use it\<close>

subsection \<open>Strings, the clock and random numbers\<close>

text \<open>
  What the scripts can take from the runtime besides the console and the filesystem.
  \<open>String.prototype.toLowerCase\<close> and \<open>String.prototype.trim\<close> are defined on all of
  Unicode (the lower-case mapping of every letter; every white-space character and line
  terminator, the byte order mark among them), so they are not written out here: the
  scripts are modelled for any such pair of functions. \<open>now\<close> is what
  \<open>new Date().toISOString()\<close> returns and \<open>random\<close> are the numbers \<open>Math.random\<close>
  would return.
\<close>

record runtime =
  toLowerCase :: "string \<Rightarrow> string"
  trim :: "string \<Rightarrow> string"
  now :: string
  random :: "nat list"

text \<open>\<open>a || b\<close> for strings: \<open>b\<close> when \<open>a\<close> is \<open>undefined\<close> or empty.\<close>

definition or_else :: "string option \<Rightarrow> string \<Rightarrow> string" where
  "or_else a b = (case a of None \<Rightarrow> b | Some v \<Rightarrow> if v = [] then b else v)"

text \<open>A value interpolated into a template literal.\<close>

definition interpolate :: "string option \<Rightarrow> string" where
  "interpolate a = (case a of None \<Rightarrow> ''undefined'' | Some v \<Rightarrow> v)"

definition newline :: string where
  "newline = [CHR 0x0A]"

text \<open>A text given line by line, each line ended by a newline.\<close>

definition text_of_lines :: "string list \<Rightarrow> string" where
  "text_of_lines ls = concat (map (\<lambda>l. l @ newline) ls)"

text \<open>\<open>xs.join(sep)\<close>.\<close>

fun join_with :: "string \<Rightarrow> string list \<Rightarrow> string" where
  "join_with sep [] = []"
| "join_with sep [x] = x"
| "join_with sep (x # y # ys) = x @ sep @ join_with sep (y # ys)"

text \<open>\<open>s.split(c)\<close> for a one-character separator: never an empty list.\<close>

fun split_on :: "char \<Rightarrow> string \<Rightarrow> string list" where
  "split_on c [] = [[]]"
| "split_on c (x # xs) =
     (if x = c then [] # split_on c xs
      else (case split_on c xs of [] \<Rightarrow> [[x]] | s # ss \<Rightarrow> (x # s) # ss))"

text \<open>A count interpolated into a template literal: its decimal digits.\<close>

fun decimal :: "nat \<Rightarrow> string" where
  "decimal n =
     (if n < 10 then [char_of (48 + n)] else decimal (n div 10) @ [char_of (48 + n mod 10)])"

definition show_bool :: "bool \<Rightarrow> string" where
  "show_bool b = (if b then ''true'' else ''false'')"

text \<open>The symbols the scripts print, as UTF-8 bytes.\<close>

definition cross_mark :: string where
  "cross_mark = [CHR 0xE2, CHR 0x9D, CHR 0x8C]"

definition check_mark :: string where
  "check_mark = [CHR 0xE2, CHR 0x9C, CHR 0x85]"

definition clipboard :: string where
  "clipboard = [CHR 0xF0, CHR 0x9F, CHR 0x93, CHR 0x8B]"

definition rocket :: string where
  "rocket = [CHR 0xF0, CHR 0x9F, CHR 0x9A, CHR 0x80]"

definition warning_sign :: string where
  "warning_sign = [CHR 0xE2, CHR 0x9A, CHR 0xA0, CHR 0xEF, CHR 0xB8, CHR 0x8F]"

subsection \<open>path.join (POSIX)\<close>

text \<open>
  \<open>normalizeString\<close>: empty segments and \<open>.\<close> are dropped; \<open>..\<close> removes the segment
  before it, and where there is none it is kept for a relative path and dropped for an
  absolute one. The result is built in reverse.
\<close>

fun normalize_segments :: "bool \<Rightarrow> string list \<Rightarrow> string list \<Rightarrow> string list" where
  "normalize_segments allowAboveRoot res [] = res"
| "normalize_segments allowAboveRoot res (s # ss) =
     (if s = [] \<or> s = ''.'' then normalize_segments allowAboveRoot res ss
      else if s = ''..'' then
        (case res of
           [] \<Rightarrow>
             normalize_segments allowAboveRoot (if allowAboveRoot then [''..''] else []) ss
         | seg # rest \<Rightarrow>
             if seg \<noteq> ''..'' then normalize_segments allowAboveRoot rest ss
             else normalize_segments allowAboveRoot
                    (if allowAboveRoot then ''..'' # res else res) ss)
      else normalize_segments allowAboveRoot (s # res) ss)"

definition path_normalize :: "string \<Rightarrow> string" where
  "path_normalize p =
     (if p = [] then ''.''
      else
        (let isAbsolute = (hd p = CHR ''/'');
             trailingSeparator = (last p = CHR ''/'');
             q = join_with ''/''
                   (rev (normalize_segments (\<not> isAbsolute) [] (split_on CHR ''/'' p)))
         in if q = [] then
              (if isAbsolute then ''/'' else if trailingSeparator then ''./'' else ''.'')
            else (if isAbsolute then ''/'' else []) @ q
                   @ (if trailingSeparator then ''/'' else [])))"

definition path_join :: "string list \<Rightarrow> string" where
  "path_join args =
     (let joined = join_with ''/'' (filter (\<lambda>a. a \<noteq> []) args)
      in if joined = [] then ''.'' else path_normalize joined)"


subsection \<open>The filesystem\<close>

text \<open>
  A path holds a file with its content, a directory, or nothing. Which paths cannot be
  created or written (permissions, a missing parent, a full disk) is part of the
  filesystem: at a path in \<open>failing\<close> the call throws the error \<open>io_error\<close> gives.
\<close>

datatype fs_entry = File string | Directory

record filesystem =
  entries :: "string \<Rightarrow> fs_entry option"
  failing :: "string set"
  io_error :: "string \<Rightarrow> js_exn"

definition existsSync :: "filesystem \<Rightarrow> string \<Rightarrow> bool" where
  "existsSync fs p = (entries fs p \<noteq> None)"



text \<open>
  The directories on the way to a path and the path itself, outermost first: for
  \<open>/a/b/c\<close> these are \<open>/a\<close>, \<open>/a/b\<close> and \<open>/a/b/c\<close>.
\<close>

fun path_prefixes_from :: "string \<Rightarrow> string list \<Rightarrow> string list" where
  "path_prefixes_from pre [] = []"
| "path_prefixes_from pre (s # ss) =
     (if s = [] then path_prefixes_from (if pre = [] then ''/'' else pre) ss
      else (pre @ s) # path_prefixes_from (pre @ s @ ''/'') ss)"

definition path_prefixes :: "string \<Rightarrow> string list" where
  "path_prefixes p = path_prefixes_from [] (split_on CHR ''/'' p)"

text \<open>
  \<open>fs.mkdirSync(p, { recursive: true })\<close>: the missing directories above \<open>p\<close> are
  created, outermost first, then \<open>p\<close> itself. A directory that exists is not an error; a
  file in the way is. When a directory cannot be created the call throws, and the
  directories created before it stay: the error comes with the filesystem as it is then.
\<close>

fun mkdir_all :: "filesystem \<Rightarrow> string list \<Rightarrow> (js_exn \<times> filesystem) + filesystem" where
  "mkdir_all fs [] = Inr fs"
| "mkdir_all fs (p # ps) =
     (case entries fs p of
        Some Directory \<Rightarrow> mkdir_all fs ps
      | Some (File c) \<Rightarrow> Inl (io_error fs p, fs)
      | None \<Rightarrow>
          if p \<in> failing fs then Inl (io_error fs p, fs)
          else mkdir_all (fs\<lparr> entries := (entries fs)(p \<mapsto> Directory) \<rparr>) ps)"

definition mkdirSync :: "filesystem \<Rightarrow> string \<Rightarrow> (js_exn \<times> filesystem) + filesystem" where
  "mkdirSync fs p = mkdir_all fs (path_prefixes p)"

text \<open>\<open>fs.writeFileSync(p, content)\<close>: creates the file or replaces its content.\<close>

definition writeFileSync :: "filesystem \<Rightarrow> string \<Rightarrow> string \<Rightarrow> js_exn + filesystem" where
  "writeFileSync fs p content =
     (if p \<in> failing fs \<or> entries fs p = Some Directory then Inl (io_error fs p)
      else Inr (fs\<lparr> entries := (entries fs)(p \<mapsto> File content) \<rparr>))"

subsection \<open>A finished process\<close>

text \<open>
  What a run leaves behind: its exit status, the lines written by \<open>console.log\<close> (one
  entry per call), the lines written by \<open>console.error\<close> and \<open>console.warn\<close>, and the
  filesystem.
\<close>

record process_result =
  exit_code :: int
  stdout :: "string list"
  stderr :: "string list"

record run_result = process_result +
  disk :: filesystem

text \<open>An exception nothing catches: Node prints its stack and exits with status 1.\<close>

definition uncaught :: "js_exn \<Rightarrow> string list \<Rightarrow> string list \<Rightarrow> filesystem \<Rightarrow> run_result" where
  "uncaught e printed reported fs =
     \<lparr> exit_code = 1, stdout = printed, stderr = reported @ [stack e], disk = fs \<rparr>"

section \<open>scripts/create-tdd-component.js\<close>

text \<open>
  The two templates, as functions of the values they interpolate; \<open>rt\<close> is the runtime
  whose \<open>toLowerCase\<close> they call.
\<close>

definition testTemplate :: "runtime \<Rightarrow> string \<Rightarrow> string \<Rightarrow> string" where
  \<open>testTemplate rt componentName issueDescription =
     text_of_lines
      [''/**'',
       '' * '' @ issueDescription,
       '' *'',
       '' * User Story: As a [user type], I want [feature] so that [benefit]'',
       '' *'',
       '' * Acceptance Criteria:'',
       '' * - Given [context], when [action], then [expected outcome]'',
       '' * - Given [context], when [action], then [expected outcome]'',
       '' *'',
       '' * TODO: Update this with actual requirements from GitHub issue'',
       '' */'',
       [],
       ''import { describe, it, expect, beforeEach } from 'vitest'' @ [CHR 0x27],
       ''// import { vi } from 'vitest' // Uncomment if you need to mock functions'',
       ''import { mount, VueWrapper } from '@vue/test-utils'' @ [CHR 0x27],
       ''import '' @ componentName @ '' from './'' @ componentName @ ''.vue'' @ [CHR 0x27],
       [],
       ''describe('' @ [CHR 0x27] @ componentName @ [CHR 0x27] @ '', () => {'',
       ''  let wrapper: VueWrapper'',
       [],
       ''  beforeEach(() => {'',
       ''    wrapper = mount('' @ componentName @ '', {'',
       ''      props: {'',
       ''        // Add default props here'',
       ''      }'',
       ''    })'',
       ''  })'',
       [],
       ''  describe('Component Initialization', () => {'',
       ''    it('should render the component', () => {'',
       ''      expect(wrapper.find('[data-testid="'' @ toLowerCase rt componentName @ ''-container"]').exists()).toBe(true)'',
       ''    })'',
       [],
       ''    it('should display the correct initial state', () => {'',
       ''      // TODO: Add initialization tests'',
       ''      expect(true).toBe(false) // This should fail initially (TDD!)'',
       ''    })'',
       ''  })'',
       [],
       ''  describe('Props', () => {'',
       ''    it('should accept and display prop values correctly', async () => {'',
       ''      // TODO: Test prop handling'',
       ''      expect(true).toBe(false)'',
       ''    })'',
       ''  })'',
       [],
       ''  describe('User Interactions', () => {'',
       ''    it('should handle click events', async () => {'',
       ''      // TODO: Test user interactions'',
       ''      expect(true).toBe(false)'',
       ''    })'',
       ''  })'',
       [],
       ''  describe('Emitted Events', () => {'',
       ''    it('should emit events with correct payload', async () => {'',
       ''      // TODO: Test event emissions'',
       ''      expect(true).toBe(false)'',
       ''    })'',
       ''  })'',
       [],
       ''  describe('Accessibility', () => {'',
       ''    it('should have proper ARIA labels', () => {'',
       ''      // TODO: Test accessibility'',
       ''      expect(true).toBe(false)'',
       ''    })'',
       ''  })'',
       [],
       ''  describe('Edge Cases', () => {'',
       ''    it('should handle edge cases gracefully', () => {'',
       ''      // TODO: Test edge cases'',
       ''      expect(true).toBe(false)'',
       ''    })'',
       ''  })'',
       ''})'']\<close>

definition componentTemplate :: "runtime \<Rightarrow> string \<Rightarrow> string" where
  \<open>componentTemplate rt componentName =
     text_of_lines
      [''<template>'',
       ''  <div data-testid="'' @ toLowerCase rt componentName @ ''-container">'',
       ''    <!-- TODO: Implement component to pass tests -->'',
       ''    <h2>'' @ componentName @ '' Component</h2>'',
       ''    <p>Implementation pending - write tests first!</p>'',
       ''  </div>'',
       ''</template>'',
       [],
       ''<script setup lang="ts">'',
       ''// Uncomment imports as needed'',
       ''// import { ref, computed, watch } from 'vue'' @ [CHR 0x27],
       [],
       ''// Props - uncomment and define when needed'',
       ''// interface Props {'',
       ''//   // TODO: Define props based on test requirements'',
       ''// }'',
       ''// const props = defineProps<Props>()'',
       [],
       ''// Emits - uncomment and define when needed'',
       ''// const emit = defineEmits<{'',
       ''//   // TODO: Define events based on test requirements'',
       ''// }>()'',
       [],
       ''// State'',
       ''// TODO: Add reactive state as needed'',
       [],
       ''// Methods'',
       ''// TODO: Implement methods to satisfy tests'',
       [],
       ''// Computed'',
       ''// TODO: Add computed properties as needed'',
       ''</script>'',
       [],
       ''<style scoped>'',
       ''/* TODO: Add styles */'',
       ''</style>'']\<close>

text \<open>The lines the script prints.\<close>

definition usage_scaffold :: string where
  \<open>usage_scaffold =
     ''Usage: node scripts/create-tdd-component.js ComponentName "Issue #1: Description"''\<close>

definition test_file_exists_msg :: "string \<Rightarrow> string" where
  "test_file_exists_msg p = cross_mark @ '' Test file already exists: '' @ p"

definition component_file_exists_msg :: "string \<Rightarrow> string" where
  "component_file_exists_msg p = cross_mark @ '' Component file already exists: '' @ p"

definition error_creating_files_msg :: "js_exn \<Rightarrow> string" where
  "error_creating_files_msg e = cross_mark @ '' Error creating files: '' @ message e"

definition created_test_file_msg :: "string \<Rightarrow> string" where
  "created_test_file_msg p = check_mark @ '' Created test file: '' @ p"

definition created_component_file_msg :: "string \<Rightarrow> string" where
  "created_component_file_msg p = check_mark @ '' Created component file: '' @ p"

definition next_steps :: "string list" where
  "next_steps =
     [newline @ clipboard @ '' Next steps:'',
      ''1. Update the test file with actual requirements from your GitHub issue'',
      ''2. Run tests in watch mode: npm run tdd'',
      ''3. Verify all tests fail (RED phase)'',
      ''4. Implement the component to make tests pass (GREEN phase)'',
      ''5. Refactor while keeping tests green (REFACTOR phase)'',
      newline @ rocket @ '' Happy TDD coding!'']"

text \<open>The paths the script derives from its own directory and the component name.\<close>

definition componentsDir :: "string \<Rightarrow> string" where
  "componentsDir dirname = path_join [dirname, ''..'', ''src'', ''components'']"

definition testFile :: "string \<Rightarrow> string \<Rightarrow> string" where
  "testFile dirname componentName =
     path_join [componentsDir dirname, componentName @ ''.test.ts'']"

definition componentFile :: "string \<Rightarrow> string \<Rightarrow> string" where
  "componentFile dirname componentName =
     path_join [componentsDir dirname, componentName @ ''.vue'']"

text \<open>Line 15: the description is the fourth argument, or a default built from the name.\<close>

definition issueDescription_of :: "string list \<Rightarrow> string" where
  "issueDescription_of argv =
     or_else (array_get argv 3)
       (''Issue: '' @ interpolate (array_get argv 2) @ '' Component'')"

text \<open>Lines 139-142: create the components directory if it does not exist.\<close>

definition ensure_components_dir ::
  "filesystem \<Rightarrow> string \<Rightarrow> (js_exn \<times> filesystem) + filesystem" where
  "ensure_components_dir fs dir = (if \<not> existsSync fs dir then mkdirSync fs dir else Inr fs)"

text \<open>
  The script, run in the runtime \<open>rt\<close> with \<open>__dirname = dirname\<close>,
  \<open>process.argv = argv\<close> and the filesystem \<open>fs\<close>. The directory step is outside the
  \<open>try\<close>: an error there is not caught.
\<close>

definition create_tdd_component ::
  "runtime \<Rightarrow> string \<Rightarrow> string list \<Rightarrow> filesystem \<Rightarrow> run_result" where
  "create_tdd_component rt dirname argv fs =
     (let componentName = array_get argv 2;
          issueDescription = issueDescription_of argv
      in
      case componentName of
        None \<Rightarrow>
          \<lparr> exit_code = 1, stdout = [usage_scaffold],
            stderr = [cross_mark @ '' Please provide a component name''], disk = fs \<rparr>
      | Some name \<Rightarrow>
          if name = [] then
            \<lparr> exit_code = 1, stdout = [usage_scaffold],
              stderr = [cross_mark @ '' Please provide a component name''], disk = fs \<rparr>
          else
            (case ensure_components_dir fs (componentsDir dirname) of
               Inl (e, fs1) \<Rightarrow> uncaught e [] [] fs1
             | Inr fs1 \<Rightarrow>
                 if existsSync fs1 (testFile dirname name) then
                   \<lparr> exit_code = 1, stdout = [],
                     stderr = [test_file_exists_msg (testFile dirname name)], disk = fs1 \<rparr>
                 else if existsSync fs1 (componentFile dirname name) then
                   \<lparr> exit_code = 1, stdout = [],
                     stderr = [component_file_exists_msg (componentFile dirname name)],
                     disk = fs1 \<rparr>
                 else
                   (case writeFileSync fs1 (testFile dirname name)
                           (testTemplate rt name issueDescription) of
                      Inl e \<Rightarrow>
                        \<lparr> exit_code = 1, stdout = [],
                          stderr = [error_creating_files_msg e], disk = fs1 \<rparr>
                    | Inr fs2 \<Rightarrow>
                        (case writeFileSync fs2 (componentFile dirname name)
                                (componentTemplate rt name) of
                           Inl e \<Rightarrow>
                             \<lparr> exit_code = 1,
                               stdout = [created_test_file_msg (testFile dirname name)],
                               stderr = [error_creating_files_msg e], disk = fs2 \<rparr>
                         | Inr fs3 \<Rightarrow>
                             \<lparr> exit_code = 0,
                               stdout = [created_test_file_msg (testFile dirname name),
                                      created_component_file_msg (componentFile dirname name)]
                                     @ next_steps,
                               stderr = [], disk = fs3 \<rparr>))))"

text \<open>
  An example runtime for the concrete runs below, whose strings are all ASCII. On ASCII
  strings \<open>toLowerCase\<close> maps \<open>A\<close> to \<open>Z\<close> to \<open>a\<close> to \<open>z\<close>, and \<open>trim\<close> removes space,
  tab, line feed, vertical tab, form feed and carriage return at both ends.
\<close>

definition lower_char :: "char \<Rightarrow> char" where
  "lower_char c =
     (let n = (of_char c :: nat) in if 65 \<le> n \<and> n \<le> 90 then char_of (n + 32) else c)"

definition is_space :: "char \<Rightarrow> bool" where
  "is_space c = (c \<in> set [CHR 0x20, CHR 0x09, CHR 0x0A, CHR 0x0B, CHR 0x0C, CHR 0x0D])"

definition sample_runtime :: "string \<Rightarrow> runtime" where
  "sample_runtime clock =
     \<lparr> toLowerCase = map lower_char,
       trim = (\<lambda>s. rev (dropWhile is_space (rev (dropWhile is_space s)))),
       now = clock, random = [] \<rparr>"

text \<open>Example filesystems for the concrete runs below.\<close>

definition permission_denied :: "string \<Rightarrow> js_exn" where
  "permission_denied p =
     \<lparr> message = ''EACCES: permission denied, '' @ p,
       stack = ''Error: EACCES: permission denied, '' @ p \<rparr>"

text \<open>A checkout without a components directory, in which everything can be created.\<close>

definition fresh_checkout :: filesystem where
  "fresh_checkout =
     \<lparr> entries = [''/repo'' \<mapsto> Directory, ''/repo/src'' \<mapsto> Directory], failing = {},
       io_error = permission_denied \<rparr>"

text \<open>A checkout in which the component file of \<open>Button\<close> is already there.\<close>

definition checkout_with_button :: filesystem where
  "checkout_with_button =
     \<lparr> entries = [''/repo'' \<mapsto> Directory, ''/repo/src'' \<mapsto> Directory,
                  ''/repo/src/components'' \<mapsto> Directory,
                  ''/repo/src/components/Button.vue'' \<mapsto> File ''old''],
       failing = {}, io_error = permission_denied \<rparr>"

text \<open>
  A checkout whose \<open>src\<close> directory holds \<open>Button.test.ts\<close>, has no components
  directory and does not allow one to be created.
\<close>

definition readonly_checkout :: filesystem where
  "readonly_checkout =
     \<lparr> entries = [''/repo'' \<mapsto> Directory, ''/repo/src'' \<mapsto> Directory,
                  ''/repo/src/Button.test.ts'' \<mapsto> File ''old''],
       failing = {''/repo/src/components''}, io_error = permission_denied \<rparr>"

section \<open>generate-tests-from-issue.js\<close>

text \<open>
  The script imports \<open>validateRequirements\<close>, \<open>generateTestContent\<close> and
  \<open>performFullValidation\<close> from the package \<open>vue-tdd-automation\<close>, whose code is not
  part of the repository. The model takes the three functions, and \<open>JSON.parse\<close>, as
  parameters; each may throw. \<open>'r\<close> is the type of a parsed requirements value.
\<close>

record ValidationResult =
  valid :: bool
  errors :: "string list"

record ValidationSummary =
  totalErrors :: nat
  totalWarnings :: nat
  hasAccessibilityTests :: bool
  followsTddPattern :: bool

record ContentValidation = ValidationResult +
  warnings :: "string list"
  summary :: ValidationSummary

text \<open>The optional third argument of \<open>generateTestContent\<close>: \<open>{ issueNumber, issueTitle }\<close> or \<open>{}\<close>.\<close>

type_synonym metadata = "(string \<times> string) option"

record 'r test_generator =
  validateRequirements :: "'r \<Rightarrow> js_exn + ValidationResult"
  generateTestContent :: "string \<Rightarrow> 'r \<Rightarrow> metadata \<Rightarrow> js_exn + string"
  performFullValidation :: "string \<Rightarrow> string \<Rightarrow> js_exn + ContentValidation"

datatype library_call = ValidateRequirements | GenerateTestContent | PerformFullValidation

text \<open>A batch run: the process result and the library calls it made, in order.\<close>

record batch_result = process_result +
  calls :: "library_call list"

definition usage_batch :: string where
  "usage_batch =
     ''Usage: node generate-tests-from-issue.js <componentName> <requirementsJson> [issueNumber] [issueTitle]''"

text \<open>The \<open>catch\<close> block (lines 48-53).\<close>

definition error_generating_tests :: "js_exn \<Rightarrow> library_call list \<Rightarrow> batch_result" where
  "error_generating_tests e made =
     \<lparr> exit_code = 1, stdout = [],
       stderr = [cross_mark @ '' Error generating tests: '' @ message e, stack e],
       calls = made \<rparr>"

definition bullet :: "string \<Rightarrow> string" where
  "bullet s = ''  - '' @ s"

text \<open>Line 26: the metadata is passed only when both optional arguments are non-empty.\<close>

definition metadata_of :: "string option \<Rightarrow> string option \<Rightarrow> metadata" where
  "metadata_of issueNumber issueTitle =
     (if \<not> falsy issueNumber \<and> \<not> falsy issueTitle
      then Some (interpolate issueNumber, interpolate issueTitle) else None)"

text \<open>Lines 34-37 and 42-45: what a successful run writes to the diagnostic stream.\<close>

definition success_report :: "ContentValidation \<Rightarrow> string list" where
  "success_report cv =
     (if length (warnings cv) > 0
      then (warning_sign @ ''  Generated test content has warnings:'') # map bullet (warnings cv)
      else [])
     @ [newline @ check_mark @ '' Test generation successful'',
        ''  - Total tests: ''
          @ decimal (totalErrors (summary cv) + totalWarnings (summary cv)),
        ''  - Has accessibility tests: '' @ show_bool (hasAccessibilityTests (summary cv)),
        ''  - Follows TDD pattern: '' @ show_bool (followsTddPattern (summary cv))]"

definition generate_tests_from_issue ::
  "(string \<Rightarrow> js_exn + 'r) \<Rightarrow> 'r test_generator \<Rightarrow> string list \<Rightarrow> batch_result" where
  "generate_tests_from_issue JSON_parse lib argv =
     (let componentName = array_get argv 2;
          requirementsJson = array_get argv 3;
          issueNumber = array_get argv 4;
          issueTitle = array_get argv 5
      in
      if falsy componentName \<or> falsy requirementsJson then
        \<lparr> exit_code = 1, stdout = [], stderr = [usage_batch], calls = [] \<rparr>
      else
        (case JSON_parse (interpolate requirementsJson) of
           Inl e \<Rightarrow> error_generating_tests e []
         | Inr requirements \<Rightarrow>
             (case validateRequirements lib requirements of
                Inl e \<Rightarrow> error_generating_tests e [ValidateRequirements]
              | Inr validation \<Rightarrow>
                  if \<not> valid validation then
                    \<lparr> exit_code = 1, stdout = [],
                      stderr = (cross_mark @ '' Invalid requirements:'')
                               # map bullet (errors validation),
                      calls = [ValidateRequirements] \<rparr>
                  else
                    (case generateTestContent lib (interpolate componentName) requirements
                            (metadata_of issueNumber issueTitle) of
                       Inl e \<Rightarrow>
                         error_generating_tests e [ValidateRequirements, GenerateTestContent]
                     | Inr testContent \<Rightarrow>
                         (case performFullValidation lib testContent
                                 (interpolate componentName) of
                            Inl e \<Rightarrow>
                              error_generating_tests e
                                [ValidateRequirements, GenerateTestContent,
                                 PerformFullValidation]
                          | Inr contentValidation \<Rightarrow>
                              if \<not> valid contentValidation then
                                \<lparr> exit_code = 1, stdout = [],
                                  stderr = (cross_mark
                                            @ '' Generated test content has errors:'')
                                           # map bullet (errors contentValidation),
                                  calls = [ValidateRequirements, GenerateTestContent,
                                           PerformFullValidation] \<rparr>
                              else
                                \<lparr> exit_code = 0,
                                  stdout = [''TEST_CONTENT_START'', testContent,
                                            ''TEST_CONTENT_END''],
                                  stderr = success_report contentValidation,
                                  calls = [ValidateRequirements, GenerateTestContent,
                                           PerformFullValidation] \<rparr>)))))"

text \<open>
  What the claims about the batch flow speak of: the requirements validation has passed
  (the arguments were given, the payload parsed, and \<open>validateRequirements\<close> returned
  \<open>valid\<close>), the text \<open>generateTestContent\<close> returned, and the content validation has
  passed on that text.
\<close>

definition requirements_validation_passed ::
  "(string \<Rightarrow> js_exn + 'r) \<Rightarrow> 'r test_generator \<Rightarrow> string list \<Rightarrow> bool" where
  "requirements_validation_passed JSON_parse lib argv =
     (\<not> falsy (array_get argv 2) \<and> \<not> falsy (array_get argv 3) \<and>
      (case JSON_parse (interpolate (array_get argv 3)) of
         Inl e \<Rightarrow> False
       | Inr requirements \<Rightarrow>
           (case validateRequirements lib requirements of
              Inl e \<Rightarrow> False
            | Inr validation \<Rightarrow> valid validation)))"

definition generated_text ::
  "(string \<Rightarrow> js_exn + 'r) \<Rightarrow> 'r test_generator \<Rightarrow> string list \<Rightarrow> string option" where
  "generated_text JSON_parse lib argv =
     (case JSON_parse (interpolate (array_get argv 3)) of
        Inl e \<Rightarrow> None
      | Inr requirements \<Rightarrow>
          (case generateTestContent lib (interpolate (array_get argv 2)) requirements
                  (metadata_of (array_get argv 4) (array_get argv 5)) of
             Inl e \<Rightarrow> None
           | Inr testContent \<Rightarrow> Some testContent))"

definition content_validation_passed ::
  "(string \<Rightarrow> js_exn + 'r) \<Rightarrow> 'r test_generator \<Rightarrow> string list \<Rightarrow> bool" where
  "content_validation_passed JSON_parse lib argv =
     (case generated_text JSON_parse lib argv of
        None \<Rightarrow> False
      | Some testContent \<Rightarrow>
          (case performFullValidation lib testContent (interpolate (array_get argv 2)) of
             Inl e \<Rightarrow> False
           | Inr contentValidation \<Rightarrow> valid contentValidation))"

text \<open>
  A stand-in for \<open>JSON.parse\<close> and for the package, for the concrete runs below: three
  payloads parse, \<open>null\<close> among them; the validator reads a property of its argument (and
  so throws on \<open>null\<close>) and rejects an empty list of criteria.
\<close>

datatype sample_payload = JNull | JRequirements "string list"

definition sample_parse :: "string \<Rightarrow> js_exn + sample_payload" where
  \<open>sample_parse s =
     (if s = ''null'' then Inr JNull
      else if s = ''{}'' then Inr (JRequirements [])
      else if s = ''{"acceptanceCriteria":["Given a, when b, then c"]}''
      then Inr (JRequirements [''Given a, when b, then c''])
      else Inl \<lparr> message = ''Unexpected token in JSON'',
                 stack = ''SyntaxError: Unexpected token in JSON'' \<rparr>)\<close>

definition sample_generator :: "sample_payload test_generator" where
  "sample_generator =
     \<lparr> validateRequirements =
         (\<lambda>r. case r of
                JNull \<Rightarrow>
                  Inl \<lparr> message = ''Cannot read properties of null'',
                        stack = ''TypeError: Cannot read properties of null'' \<rparr>
              | JRequirements cs \<Rightarrow>
                  Inr \<lparr> valid = (cs \<noteq> []),
                        errors = (if cs = [] then [''No acceptance criteria''] else []) \<rparr>),
       generateTestContent =
         (\<lambda>name r meta. Inr (''describe('' @ name @ '')'')),
       performFullValidation =
         (\<lambda>content name.
            Inr \<lparr> valid = True, errors = [], warnings = [],
                  summary = \<lparr> totalErrors = 0, totalWarnings = 0,
                              hasAccessibilityTests = True, followsTddPattern = True \<rparr> \<rparr>) \<rparr>"

section \<open>The TDD feature CLI (interactive flow)\<close>

subsection \<open>What the flow runs in\<close>

text \<open>
  The requirements object the flow hands to \<open>generateTestContent\<close>, and the answers it
  collects. The answers extend the requirements: \<open>userStory\<close> is put together from three
  of the answers.
\<close>

record FeatureRequirements =
  userStory :: string
  acceptanceCriteria :: "string list"
  happyPath :: "string list"
  edgeCases :: "string list"
  errorCases :: "string list"
  props :: string
  events :: string

record answers = FeatureRequirements +
  componentName :: string
  description :: string
  userType :: string
  feature :: string
  benefit :: string
  stateManagement :: string
  desktopView :: string
  mobileView :: string
  accessibility :: string

text \<open>
  The environment: \<open>execSync\<close> runs a shell command on the filesystem and returns the
  command's output or throws (the command is missing or exits with a non-zero status);
  \<open>cwd\<close> is the working directory; \<open>package\<close> is the imported test generator;
  \<open>runtime\<close> gives the string functions and the clock.
\<close>

record environment =
  execSync :: "string \<Rightarrow> filesystem \<Rightarrow> (js_exn + string) \<times> filesystem"
  cwd :: string
  package :: "FeatureRequirements test_generator"
  runtime :: runtime

text \<open>
  A session: the process so far (\<open>stdout\<close> also holds the prompts), the lines still to
  come on standard input, and the shell commands run so far.
\<close>

record session = run_result +
  input :: "string list"
  commands :: "string list"

text \<open>
  An \<open>async\<close> computation ends with a value, throws, or waits for input that never comes
  (standard input has ended and the promise of \<open>rl.question\<close> is never settled).
\<close>

datatype 'a step = Done 'a session | Threw js_exn session | Waiting session

fun then_do :: "'a step \<Rightarrow> ('a \<Rightarrow> session \<Rightarrow> 'b step) \<Rightarrow> 'b step" where
  "then_do (Done v s) k = k v s"
| "then_do (Threw e s) k = Threw e s"
| "then_do (Waiting s) k = Waiting s"

fun session_of :: "'a step \<Rightarrow> session" where
  "session_of (Done v s) = s"
| "session_of (Threw e s) = s"
| "session_of (Waiting s) = s"

definition console_log :: "string \<Rightarrow> session \<Rightarrow> session" where
  "console_log line s = s\<lparr> stdout := stdout s @ [line] \<rparr>"

definition console_logs :: "string list \<Rightarrow> session \<Rightarrow> session" where
  "console_logs ls s = s\<lparr> stdout := stdout s @ ls \<rparr>"

definition console_error :: "string \<Rightarrow> session \<Rightarrow> session" where
  "console_error line s = s\<lparr> stderr := stderr s @ [line] \<rparr>"

text \<open>\<open>await prompt(question)\<close>: the question is written, the next input line is the answer.\<close>

definition prompt :: "string \<Rightarrow> session \<Rightarrow> string step" where
  "prompt question s =
     (case input s of
        [] \<Rightarrow> Waiting (s\<lparr> stdout := stdout s @ [question] \<rparr>)
      | a # rest \<Rightarrow> Done a (s\<lparr> stdout := stdout s @ [question], input := rest \<rparr>))"

text \<open>
  The loops that read a list: lines are asked for and pushed until an empty line is
  answered. The function works on the lines still to come and the output so far, and
  returns the list with the remaining lines, or nothing when the input ends first.
\<close>

fun prompt_list ::
  "string list \<Rightarrow> string list \<Rightarrow> string list
   \<Rightarrow> (string list \<times> string list) option \<times> string list" where
  "prompt_list acc [] shown = (None, shown @ [''  - ''])"
| "prompt_list acc (a # rest) shown =
     (if a = [] then (Some (acc, rest), shown @ [''  - ''])
      else prompt_list (acc @ [a]) rest (shown @ [''  - '']))"

definition prompt_until_empty :: "session \<Rightarrow> string list step" where
  "prompt_until_empty s =
     (case prompt_list [] (input s) (stdout s) of
        (None, shown) \<Rightarrow> Waiting (s\<lparr> stdout := shown, input := [] \<rparr>)
      | (Some (items, rest), shown) \<Rightarrow> Done items (s\<lparr> stdout := shown, input := rest \<rparr>))"

text \<open>\<open>execSync(command)\<close> in a session: the command is recorded and may change the filesystem.\<close>

definition exec :: "environment \<Rightarrow> string \<Rightarrow> session \<Rightarrow> string step" where
  "exec env command s =
     (let (r, fs) = execSync env command (disk s);
          s1 = s\<lparr> disk := fs, commands := commands s @ [command] \<rparr>
      in case r of Inl e \<Rightarrow> Threw e s1 | Inr output \<Rightarrow> Done output s1)"

text \<open>\<open>fs.writeFileSync\<close> in a session; a relative path is resolved against the working directory.\<close>

definition write_file :: "string \<Rightarrow> string \<Rightarrow> session \<Rightarrow> unit step" where
  "write_file p content s =
     (case writeFileSync (disk s) p content of
        Inl e \<Rightarrow> Threw e s
      | Inr fs \<Rightarrow> Done () (s\<lparr> disk := fs \<rparr>))"

subsection \<open>Strings of the flow\<close>

definition color_reset :: string where "color_reset = [CHR 0x1B] @ ''[0m''"
definition color_bright :: string where "color_bright = [CHR 0x1B] @ ''[1m''"
definition color_green :: string where "color_green = [CHR 0x1B] @ ''[32m''"
definition color_yellow :: string where "color_yellow = [CHR 0x1B] @ ''[33m''"
definition color_cyan :: string where "color_cyan = [CHR 0x1B] @ ''[36m''"
definition color_red :: string where "color_red = [CHR 0x1B] @ ''[31m''"

definition robot :: string where "robot = [CHR 0xF0, CHR 0x9F, CHR 0xA4, CHR 0x96]"
definition memo :: string where "memo = [CHR 0xF0, CHR 0x9F, CHR 0x93, CHR 0x9D]"
definition puzzle_piece :: string where "puzzle_piece = [CHR 0xF0, CHR 0x9F, CHR 0xA7, CHR 0xA9]"
definition mobile_phone :: string where "mobile_phone = [CHR 0xF0, CHR 0x9F, CHR 0x93, CHR 0xB1]"
definition sparkles :: string where "sparkles = [CHR 0xE2, CHR 0x9C, CHR 0xA8]"
definition right_arrow :: string where "right_arrow = [CHR 0xE2, CHR 0x86, CHR 0x92]"

text \<open>A question in yellow, followed by a space.\<close>

definition ask :: "string \<Rightarrow> string" where
  "ask q = color_yellow @ q @ color_reset @ '' ''"

text \<open>A heading in cyan after an empty line.\<close>

definition heading :: "string \<Rightarrow> string" where
  "heading h = newline @ color_cyan @ h @ color_reset"

text \<open>In the body passed on the command line, every double quote gets a backslash.\<close>

definition escape_quotes :: "string \<Rightarrow> string" where
  "escape_quotes s = concat (map (\<lambda>c. if c = CHR 0x22 then [CHR 0x5C, CHR 0x22] else [c]) s)"

text \<open>\<open>s.replace(/[:.]/g, '-')\<close>.\<close>

definition dash_colons_dots :: "string \<Rightarrow> string" where
  "dash_colons_dots s = map (\<lambda>c. if c = CHR '':'' \<or> c = CHR ''.'' then CHR ''-'' else c) s"

text \<open>\<open>items.map(c => `- [ ] ${c}`).join('\n')\<close>.\<close>

definition checklist :: "string list \<Rightarrow> string" where
  "checklist items = join_with newline (map (\<lambda>c. ''- [ ] '' @ c) items)"

text \<open>\<open>events ? events.split(',').map(e => `@${e.trim()}`).join(', ') : 'None'\<close>.\<close>

definition event_list :: "runtime \<Rightarrow> string \<Rightarrow> string" where
  "event_list rt ev =
     (if ev = [] then ''None''
      else join_with '', '' (map (\<lambda>e. ''@'' @ trim rt e) (split_on CHR '','' ev)))"

text \<open>Lines 140-179: the body of the issue, a template literal that is trimmed.\<close>

definition issueBody :: "runtime \<Rightarrow> answers \<Rightarrow> string" where
  "issueBody rt a =
     trim rt (newline @ text_of_lines
       [''## User Story'',
        ''As a '' @ userType a @ '', I want '' @ feature a @ '' so that '' @ benefit a,
        [],
        ''## Acceptance Criteria'',
        checklist (acceptanceCriteria a),
        [],
        ''## Component Details'',
        ''**Component Name**: '' @ componentName a,
        ''**Props**: '' @ or_else (Some (props a)) ''None'',
        ''**Events**: '' @ event_list rt (events a),
        ''**State Management**: '' @ or_else (Some (stateManagement a)) ''local state'',
        [],
        ''## Test Scenarios'',
        ''### Happy Path'',
        checklist (happyPath a),
        [],
        ''### Edge Cases'',
        checklist (edgeCases a),
        [],
        ''### Error Cases'',
        checklist (errorCases a),
        [],
        ''## API/Data Requirements'',
        ''```json'',
        ''{'',
        ''  // To be defined'',
        ''}'',
        ''```'',
        [],
        ''## UI/UX Requirements'',
        ''- Desktop view: '' @ or_else (Some (desktopView a)) ''Standard responsive layout'',
        ''- Mobile view: '' @ or_else (Some (mobileView a)) ''Mobile-optimized layout'',
        ''- Accessibility: '' @ or_else (Some (accessibility a)) ''WCAG 2.1 AA compliance'',
        [],
        ''## Dependencies'',
        ''- [ ] Backend API endpoint required?'',
        ''- [ ] Design mockup available?'',
        ''- [ ] External library needed?''])"

definition issueTitle :: "answers \<Rightarrow> string" where
  "issueTitle a = ''[FEATURE] '' @ componentName a @ '' - '' @ description a"

text \<open>The commands the flow runs.\<close>

definition gh_version_command :: string where
  "gh_version_command = ''gh --version''"

definition gh_issue_command :: "runtime \<Rightarrow> answers \<Rightarrow> string" where
  \<open>gh_issue_command rt a =
     ''gh issue create --title "'' @ issueTitle a @ ''" --body "''
       @ escape_quotes (issueBody rt a) @ ''" --label "feature-request,tdd,enhancement"''\<close>

definition branchName :: "runtime \<Rightarrow> answers \<Rightarrow> string" where
  "branchName rt a = ''feature/'' @ toLowerCase rt (componentName a)"

definition git_checkout_command :: "runtime \<Rightarrow> answers \<Rightarrow> string" where
  "git_checkout_command rt a = ''git checkout -b '' @ branchName rt a"

definition scaffold_command :: "answers \<Rightarrow> string" where
  \<open>scaffold_command a =
     ''node scripts/create-tdd-component.js '' @ componentName a @ '' "'' @ issueTitle a @ ''"''\<close>

text \<open>The file the issue is saved to when the issue tracker's CLI is not there.\<close>

definition issue_filename :: "environment \<Rightarrow> answers \<Rightarrow> string" where
  "issue_filename env a =
     ''issue-'' @ componentName a @ ''-'' @ dash_colons_dots (now (runtime env)) @ ''.md''"

definition issue_filepath :: "environment \<Rightarrow> answers \<Rightarrow> string" where
  "issue_filepath env a = path_join [cwd env, issue_filename env a]"

definition issue_file_content :: "runtime \<Rightarrow> answers \<Rightarrow> string" where
  "issue_file_content rt a =
     ''---'' @ newline @ ''title: '' @ issueTitle a @ newline
       @ ''labels: feature-request, tdd, enhancement'' @ newline @ ''---'' @ newline
       @ newline @ issueBody rt a"

text \<open>The generated test file, relative to the working directory.\<close>

definition local_test_file :: "environment \<Rightarrow> answers \<Rightarrow> string" where
  "local_test_file env a =
     path_join [cwd env, path_join [''src'', ''components'', componentName a @ ''.test.ts'']]"

subsection \<open>The flow\<close>

text \<open>Lines 99-138: the answers are collected, one prompt after the other.\<close>

definition collect :: "session \<Rightarrow> answers step" where
  \<open>collect s0 =
     (let s = console_logs
                [color_bright @ color_cyan @ robot @ '' TDD Feature Generator'' @ color_reset
                   @ newline,
                 ''This tool will create a GitHub issue and automatically set up TDD for your feature.''
                   @ newline] s0
      in
      then_do (prompt (ask ''Component name (PascalCase):'') s) (\<lambda>componentName s.
      then_do (prompt (ask ''Brief description:'') s) (\<lambda>description s.
      then_do (prompt (ask ''User type (e.g., user, admin, guest):'') s) (\<lambda>userType s.
      then_do (prompt (ask ''What feature do they want?'') s) (\<lambda>feature s.
      then_do (prompt (ask ''What benefit does it provide?'') s) (\<lambda>benefit s.
      then_do (prompt_until_empty
                 (console_logs [heading (memo @ '' Acceptance Criteria''),
                                ''Enter acceptance criteria (empty line to finish):''] s))
        (\<lambda>acceptanceCriteria s.
      then_do (prompt
                 (ask ''Props (comma-separated, e.g., "value: string, disabled: boolean"):'')
                 (console_log (heading (puzzle_piece @ '' Component Details'')) s))
        (\<lambda>props s.
      then_do (prompt (ask ''Events (comma-separated, e.g., "change, submit, cancel"):'') s)
        (\<lambda>events s.
      then_do (prompt (ask ''State management (local/composable/pinia):'') s)
        (\<lambda>stateManagement s.
      then_do (prompt_until_empty
                 (console_logs [heading (check_mark @ '' Test Scenarios''),
                                ''Happy path scenarios (empty line to finish):''] s))
        (\<lambda>happyPath s.
      then_do (prompt_until_empty (console_log ''Edge cases (empty line to finish):'' s))
        (\<lambda>edgeCases s.
      then_do (prompt_until_empty (console_log ''Error cases (empty line to finish):'' s))
        (\<lambda>errorCases s.
      then_do (prompt (ask ''Desktop view requirements:'')
                 (console_log (heading (mobile_phone @ '' UI/UX Requirements'')) s))
        (\<lambda>desktopView s.
      then_do (prompt (ask ''Mobile view requirements:'') s) (\<lambda>mobileView s.
      then_do (prompt (ask ''Accessibility requirements:'') s) (\<lambda>accessibility s.
        Done \<lparr> userStory = ''As a '' @ userType @ '', I want '' @ feature @ '' so that ''
                             @ benefit,
               acceptanceCriteria = acceptanceCriteria, happyPath = happyPath,
               edgeCases = edgeCases, errorCases = errorCases, props = props,
               events = events, componentName = componentName, description = description,
               userType = userType, feature = feature, benefit = benefit,
               stateManagement = stateManagement, desktopView = desktopView,
               mobileView = mobileView, accessibility = accessibility \<rparr>
             s))))))))))))))))\<close>

text \<open>Lines 245-253: the requirements passed to the generator.\<close>

definition requirements_of :: "answers \<Rightarrow> FeatureRequirements" where
  "requirements_of a =
     \<lparr> userStory = userStory a, acceptanceCriteria = acceptanceCriteria a,
       happyPath = happyPath a, edgeCases = edgeCases a, errorCases = errorCases a,
       props = props a, events = events a \<rparr>"

definition issue_created_lines :: "string \<Rightarrow> string list" where
  "issue_created_lines result =
     [color_green @ check_mark @ '' Issue created successfully!'' @ color_reset,
      result,
      newline @ color_cyan @ robot @ '' The GitHub Action will now:'' @ color_reset,
      ''  1. Create a feature branch'',
      ''  2. Generate component scaffold'',
      ''  3. Create test file with all requirements'',
      ''  4. Open a Pull Request'',
      newline @ ''Check your GitHub repository for updates!'']"

definition issue_saved_lines :: "string \<Rightarrow> string list" where
  \<open>issue_saved_lines filename =
     [color_yellow @ warning_sign @ ''  GitHub CLI not found'' @ color_reset,
      ''Issue content saved to: '' @ color_bright @ filename @ color_reset @ newline,
      ''To create the issue manually:'',
      ''1. Go to your GitHub repository'',
      ''2. Click "Issues" '' @ right_arrow @ '' "New Issue"'',
      ''3. Choose "Feature Request (TDD)" template'',
      ''4. Copy the content from the saved file'',
      ''5. Make sure to add the "feature-request" label'',
      newline @ ''Or install GitHub CLI: https://cli.github.com/'']\<close>

definition error_creating_issue_line :: "js_exn \<Rightarrow> string" where
  "error_creating_issue_line e =
     color_red @ ''Error creating issue:'' @ color_reset @ '' '' @ message e"

text \<open>
  Lines 180-228: the issue is created with the issue tracker's CLI if \<open>gh --version\<close>
  runs; a failure of \<open>gh issue create\<close> is caught and reported. Without the CLI the issue
  is written to a file.
\<close>

definition create_issue :: "environment \<Rightarrow> answers \<Rightarrow> session \<Rightarrow> unit step" where
  "create_issue env a s0 =
     (let s = console_log
                (newline @ color_green @ sparkles @ '' Creating GitHub issue...''
                   @ color_reset) s0
      in
      case exec env gh_version_command s of
        Done v s1 \<Rightarrow>
          (case exec env (gh_issue_command (runtime env) a) s1 of
             Done result s2 \<Rightarrow> Done () (console_logs (issue_created_lines result) s2)
           | Threw e s2 \<Rightarrow> Done () (console_error (error_creating_issue_line e) s2)
           | Waiting s2 \<Rightarrow> Waiting s2)
      | Threw e s1 \<Rightarrow>
          then_do (write_file (issue_filepath env a) (issue_file_content (runtime env) a) s1)
            (\<lambda>u s2. Done () (console_logs (issue_saved_lines (issue_filename env a)) s2))
      | Waiting s1 \<Rightarrow> Waiting s1)"

text \<open>Lines 233-240: the branch is created; a failure is caught and the flow goes on.\<close>

definition branch_exists_line :: "runtime \<Rightarrow> answers \<Rightarrow> string" where
  "branch_exists_line rt a =
     ''Branch '' @ branchName rt a @ '' may already exist, continuing...''"

definition create_branch :: "environment \<Rightarrow> answers \<Rightarrow> session \<Rightarrow> session" where
  "create_branch env a s =
     (case exec env (git_checkout_command (runtime env) a) s of
        Done v s1 \<Rightarrow> s1
      | Threw e s1 \<Rightarrow> console_log (branch_exists_line (runtime env) a) s1
      | Waiting s1 \<Rightarrow> s1)"

definition setup_complete_lines :: "answers \<Rightarrow> string list" where
  "setup_complete_lines a =
     [newline @ color_green @ check_mark @ '' TDD setup complete!'' @ color_reset,
      newline @ ''Next steps:'',
      ''  1. Run tests: '' @ color_bright @ ''npm run tdd'' @ color_reset,
      ''  2. Implement '' @ componentName a @ '' to make tests pass'',
      ''  3. Commit when all tests are green'']"

text \<open>
  Lines 241-260: the scaffold generator is run as a subprocess, then the detailed tests
  are generated and written over the scaffold's test file. None of the three steps is
  inside a \<open>try\<close>.
\<close>

definition generate_component_and_tests :: "environment \<Rightarrow> answers \<Rightarrow> session \<Rightarrow> unit step" where
  "generate_component_and_tests env a s =
     then_do (exec env (scaffold_command a) s) (\<lambda>output s1.
       case generateTestContent (package env) (componentName a) (requirements_of a) None of
         Inl e \<Rightarrow> Threw e s1
       | Inr testContent \<Rightarrow>
           then_do (write_file (local_test_file env a) testContent s1)
             (\<lambda>u s2. Done () (console_logs (setup_complete_lines a) s2)))"

text \<open>Lines 229-261.\<close>

definition local_tdd_setup :: "environment \<Rightarrow> answers \<Rightarrow> session \<Rightarrow> unit step" where
  "local_tdd_setup env a s =
     then_do (prompt (newline @ color_yellow @ ''Generate local TDD setup now? (y/n):''
                        @ color_reset @ '' '') s)
       (\<lambda>generateLocal s1.
          if toLowerCase (runtime env) generateLocal = ''y'' then
            generate_component_and_tests env a
              (create_branch env a
                 (console_log (newline @ color_cyan @ rocket
                                 @ '' Generating local TDD setup...'' @ color_reset) s1))
          else Done () s1)"

definition main :: "environment \<Rightarrow> session \<Rightarrow> unit step" where
  "main env s =
     then_do (collect s) (\<lambda>a s1.
     then_do (create_issue env a s1) (\<lambda>u s2. local_tdd_setup env a s2))"

text \<open>
  Line 264, \<open>main().catch(console.error)\<close>: a rejection of \<open>main\<close> is handled by printing
  the error. Nothing in the script calls \<open>process.exit\<close> or sets \<open>process.exitCode\<close>, so
  the status the process ends with is the initial one, 0, however \<open>main\<close> ended.
\<close>

definition start :: "string list \<Rightarrow> filesystem \<Rightarrow> session" where
  "start lines fs =
     \<lparr> exit_code = 0, stdout = [], stderr = [], disk = fs, input = lines, commands = [] \<rparr>"

definition tdd_feature :: "environment \<Rightarrow> string list \<Rightarrow> filesystem \<Rightarrow> session" where
  "tdd_feature env lines fs =
     (case main env (start lines fs) of
        Done u s \<Rightarrow> s
      | Threw e s \<Rightarrow> console_error (stack e) s
      | Waiting s \<Rightarrow> s)"

text \<open>The exception a computation ended with, if it threw.\<close>

fun thrown :: "'a step \<Rightarrow> js_exn option" where
  "thrown (Done v s) = None"
| "thrown (Threw e s) = Some e"
| "thrown (Waiting s) = None"

section \<open>The test generator and the content validator, from the specification\<close>

text \<open>
  The code of the package is not in the repository; the repository holds one file the
  generator produced (the tests of \<open>UserProfile\<close>), from which the literal lines below are
  taken.
\<close>

text \<open>\<open>text.includes(pattern)\<close>.\<close>

fun starts_with :: "string \<Rightarrow> string \<Rightarrow> bool" where
  "starts_with s [] = True"
| "starts_with [] (p # ps) = False"
| "starts_with (c # cs) (p # ps) = (c = p \<and> starts_with cs ps)"

fun contains :: "string \<Rightarrow> string \<Rightarrow> bool" where
  "contains [] p = (p = [])"
| "contains (c # cs) p = (starts_with (c # cs) p \<or> contains cs p)"

text \<open>The number of lines of a text that contain a pattern.\<close>

definition count_lines_with :: "string \<Rightarrow> string \<Rightarrow> nat" where
  "count_lines_with pattern t =
     length (filter (\<lambda>l. contains l pattern) (split_on CHR 0x0A t))"

definition failing_assertion :: string where
  "failing_assertion = ''expect(true).toBe(false)''"

definition red_phase_line :: string where
  "red_phase_line = ''      '' @ failing_assertion @ ''; // Red phase - this should fail''"

text \<open>
  Modelled from the spec: the header comment of \<open>generateTestContent\<close> (its code is
  missing). "If \<open>metadata.issueNumber\<close> and \<open>metadata.issueTitle\<close> are both present, the
  generated header comment includes them; otherwise a generic placeholder header is used."
\<close>

definition header_comment :: "string \<Rightarrow> FeatureRequirements \<Rightarrow> metadata \<Rightarrow> string list" where
  "header_comment name r meta =
     [''/**'',
      '' * '' @ name @ '' Component Tests'',
      (case meta of
         Some (issueNumber, title) \<Rightarrow> '' * GitHub Issue #'' @ issueNumber @ '': '' @ title
       | None \<Rightarrow> '' * Generated from feature requirements''),
      '' *'',
      '' * User Story: '' @ userStory r,
      '' *'',
      '' * This test file follows TDD approach - all tests should fail initially (Red phase)'',
      '' */'']"

text \<open>
  Modelled from the spec: one acceptance-criterion test of \<open>generateTestContent\<close> (its code
  is missing). "One test per acceptance-criterion string, each starting as an
  intentionally failing assertion"; "each acceptance-criterion test's name is derived
  verbatim from the criterion string (lower-cased)".
\<close>

definition acceptance_test :: "runtime \<Rightarrow> string \<Rightarrow> string \<Rightarrow> string list" where
  "acceptance_test rt name criterion =
     [''    it('' @ [CHR 0x27] @ ''should '' @ toLowerCase rt criterion @ [CHR 0x27]
        @ '', async () => {'',
      ''      // Acceptance Criteria: '' @ criterion,
      ''      const { user } = render('' @ name @ '');'',
      [],
      ''      // TODO: Implement test for: '' @ criterion,
      [],
      red_phase_line,
      ''    });'',
      []]"

text \<open>
  Modelled from the spec: the accessibility group of \<open>generateTestContent\<close> (its code is
  missing). "Accessibility (two fixed stub tests: screen-reader accessibility, keyboard
  navigability)."
\<close>

definition accessibility_group :: "string \<Rightarrow> string list" where
  "accessibility_group name =
     [''  describe('' @ [CHR 0x27] @ ''Accessibility'' @ [CHR 0x27] @ '', () => {'',
      ''    it('' @ [CHR 0x27] @ ''should be accessible to screen readers'' @ [CHR 0x27]
        @ '', () => {'',
      ''      render('' @ name @ '');'',
      [],
      ''      // TODO: Add accessibility checks'',
      red_phase_line,
      ''    });'',
      [],
      ''    it('' @ [CHR 0x27] @ ''should be keyboard navigable'' @ [CHR 0x27]
        @ '', async () => {'',
      ''      const { user } = render('' @ name @ '');'',
      [],
      ''      // TODO: Test keyboard navigation'',
      red_phase_line,
      ''    });'',
      ''  });'']"

text \<open>
  Modelled from the spec: the acceptance-criteria group of \<open>generateTestContent\<close> (its code
  is missing). With no criterion the output "degenerates to a suite with only the two
  accessibility stubs".
\<close>

definition acceptance_group :: "runtime \<Rightarrow> string \<Rightarrow> string list \<Rightarrow> string list" where
  "acceptance_group rt name criteria =
     (if criteria = [] then []
      else [''  describe('' @ [CHR 0x27] @ ''Acceptance Criteria'' @ [CHR 0x27]
              @ '', () => {'']
           @ concat (map (acceptance_test rt name) criteria)
           @ [''  });'', []])"

text \<open>
  Modelled from the spec: \<open>generateTestContent\<close> (its code is missing). "Emits one test
  suite per component, with nested test groups"; "fails (throws / returns error) if
  \<open>componentName\<close> is empty; otherwise always produces output"; "identical inputs always
  produce byte-identical output (no timestamps, no random identifiers)". The function runs
  in a runtime \<open>rt\<close>, whose clock and random numbers it could read; as specified it takes
  only \<open>toLowerCase\<close> from it.
\<close>

definition spec_generateTestContent ::
  "runtime \<Rightarrow> string \<Rightarrow> FeatureRequirements \<Rightarrow> metadata \<Rightarrow> js_exn + string" where
  "spec_generateTestContent rt name r meta =
     (if name = [] then
        Inl \<lparr> message = ''componentName is required'',
              stack = ''Error: componentName is required'' \<rparr>
      else
        Inr (text_of_lines
          (header_comment name r meta
           @ [[],
              ''import { describe, it, expect } from '' @ [CHR 0x27] @ ''vitest'' @ [CHR 0x27],
              ''import '' @ name @ '' from '' @ [CHR 0x27] @ ''./'' @ name @ ''.vue''
                @ [CHR 0x27],
              [],
              ''describe('' @ [CHR 0x27] @ name @ '' Component'' @ [CHR 0x27]
                @ '', () => {'']
           @ acceptance_group rt name (acceptanceCriteria r)
           @ accessibility_group name
           @ [''});''])))"

text \<open>
  Modelled from the spec: \<open>performFullValidation\<close> (its code is missing). "Errors: missing
  top-level suite declaration for \<open>componentName\<close>; zero generated test cases. Warnings: no
  accessibility section found; no explicit red-phase failing assertion found. Summary
  flags: \<open>hasAccessibilityTests\<close> true iff an accessibility group marker is present;
  \<open>followsTddPattern\<close> true iff at least one generated assertion is a deliberately-failing
  placeholder."
\<close>

definition spec_performFullValidation :: "string \<Rightarrow> string \<Rightarrow> js_exn + ContentValidation" where
  "spec_performFullValidation content name =
     (let found_errors =
            (if contains content (''describe('' @ [CHR 0x27] @ name) then []
             else [''Missing describe block for '' @ name])
            @ (if count_lines_with (''it('' @ [CHR 0x27]) content = 0
               then [''No test cases found''] else []);
          accessible = contains content (''describe('' @ [CHR 0x27] @ ''Accessibility'');
          red = contains content failing_assertion;
          found_warnings =
            (if accessible then [] else [''No accessibility tests found''])
            @ (if red then [] else [''No failing placeholder assertion found''])
      in Inr \<lparr> valid = (found_errors = []), errors = found_errors,
               warnings = found_warnings,
               summary = \<lparr> totalErrors = length found_errors,
                           totalWarnings = length found_warnings,
                           hasAccessibilityTests = accessible,
                           followsTddPattern = red \<rparr> \<rparr>)"

text \<open>
  Modelled from the spec: \<open>validateRequirements\<close> (its code is missing). "Fails if both
  \<open>acceptanceCriteria\<close> and all scenario lists are empty"; "accumulates every violation into
  the \<open>errors\<close> sequence".
\<close>

definition spec_validateRequirements :: "FeatureRequirements \<Rightarrow> js_exn + ValidationResult" where
  "spec_validateRequirements r =
     (let found =
            (if acceptanceCriteria r = [] \<and> happyPath r = [] \<and> edgeCases r = []
                \<and> errorCases r = []
             then [''No acceptance criteria or test scenarios''] else [])
      in Inr \<lparr> valid = (found = []), errors = found \<rparr>)"

definition spec_package :: "runtime \<Rightarrow> FeatureRequirements test_generator" where
  "spec_package rt =
     \<lparr> validateRequirements = spec_validateRequirements,
       generateTestContent = spec_generateTestContent rt,
       performFullValidation = spec_performFullValidation \<rparr>"

section \<open>An example environment for the interactive flow\<close>

text \<open>
  A shell for the concrete runs below. The issue tracker's CLI is installed or not;
  when it is, \<open>gh issue create\<close> fails (no network). The branch \<open>feature/button\<close>
  exists already, so \<open>git checkout -b\<close> fails. The scaffold command runs the scaffold
  script of this repository on the filesystem, and \<open>execSync\<close> throws when it exits with
  a non-zero status. What a subprocess prints is not part of the session's output.
\<close>

definition command_failed :: "string \<Rightarrow> js_exn" where
  "command_failed command =
     \<lparr> message = ''Command failed: '' @ command,
       stack = ''Error: Command failed: '' @ command \<rparr>"

definition sample_shell :: "bool \<Rightarrow> string \<Rightarrow> filesystem \<Rightarrow> (js_exn + string) \<times> filesystem" where
  \<open>sample_shell gh_installed command fs =
     (if command = ''gh --version'' then
        (if gh_installed then (Inr ''gh version 2.40.0'', fs)
         else (Inl (command_failed command), fs))
      else if command
              = ''node scripts/create-tdd-component.js Button "[FEATURE] Button - A button"''
      then
        (let r = create_tdd_component (sample_runtime []) ''/repo/scripts''
                   [''node'', ''/repo/scripts/create-tdd-component.js'', ''Button'',
                    ''[FEATURE] Button - A button''] fs
         in (if exit_code r = 0 then Inr [] else Inl (command_failed command), disk r))
      else (Inl (command_failed command), fs))\<close>

definition sample_environment :: "bool \<Rightarrow> environment" where
  "sample_environment gh_installed =
     \<lparr> execSync = sample_shell gh_installed, cwd = ''/repo'',
       package = spec_package (sample_runtime ''2024-05-01T10:20:30.456Z''),
       runtime = sample_runtime ''2024-05-01T10:20:30.456Z'' \<rparr>"

text \<open>The lines a user types: the answers to the eighteen prompts, the last one \<open>y\<close>.\<close>

definition sample_input :: "string list" where
  "sample_input =
     [''Button'', ''A button'', ''user'', ''a button'', ''I can click'',
      ''Given a, when b, then c'', [],
      ''label: string'', ''click'', ''local'',
      ''renders'', [], [], [],
      [], [], [],
      ''y'']"

definition sample_answers :: answers where
  "sample_answers =
     \<lparr> userStory = ''As a user, I want a button so that I can click'',
       acceptanceCriteria = [''Given a, when b, then c''], happyPath = [''renders''],
       edgeCases = [], errorCases = [], props = ''label: string'', events = ''click'',
       componentName = ''Button'', description = ''A button'', userType = ''user'',
       feature = ''a button'', benefit = ''I can click'', stateManagement = ''local'',
       desktopView = [], mobileView = [], accessibility = [] \<rparr>"




section \<open>Properties of getEmittedEvent\<close>

text \<open>
  C10. For every wrapper, event name and index, getEmittedEvent returns a value and
  never throws: \<open>undefined\<close> when the event was never emitted or the index is outside
  the emissions, and otherwise the first payload element of the indexed emission (which
  is \<open>undefined\<close> for an emission without arguments).
\<close>

theorem getEmittedEvent_total:
  "getEmittedEvent wrapper eventName index =
     Inr (case emitted wrapper eventName of
            None \<Rightarrow> Undefined
          | Some em \<Rightarrow>
              if 0 \<le> index \<and> index < int (length em)
              then (case em ! nat index of [] \<Rightarrow> Undefined | v # _ \<Rightarrow> v)
              else Undefined)"
  by (simp add: getEmittedEvent_def js_index_def array_get_def Let_def
      split: option.splits list.splits)

theorem getEmittedEvent_total_witness:
  "getEmittedEvent
     \<lparr> emitted = (\<lambda>e. if e = ''change'' then Some [[Val (1::nat), Val 2], []] else None) \<rparr>
     ''change'' 0 = Inr (Val 1)
   \<and> getEmittedEvent
     \<lparr> emitted = (\<lambda>e. if e = ''change'' then Some [[Val (1::nat), Val 2], []] else None) \<rparr>
     ''change'' 1 = Inr Undefined
   \<and> getEmittedEvent
     \<lparr> emitted = (\<lambda>e. if e = ''change'' then Some [[Val (1::nat), Val 2], []] else None) \<rparr>
     ''change'' 2 = Inr Undefined
   \<and> getEmittedEvent
     \<lparr> emitted = (\<lambda>e. if e = ''change'' then Some [[Val (1::nat), Val 2], []] else None) \<rparr>
     ''change'' (- 1) = Inr Undefined
   \<and> getEmittedEvent
     \<lparr> emitted = (\<lambda>e. if e = ''change'' then Some [[Val (1::nat), Val 2], []] else None) \<rparr>
     ''submit'' 0 = Inr Undefined"
  by (simp add: getEmittedEvent_total)

section \<open>Properties of the storage mock\<close>

lemma install_shared: "shared_store (install_storage_mocks w0) {}"
  by (simp add: shared_store_def install_storage_mocks_def Let_def)

lemma call_storage_shared:
  assumes "shared_store w K" and "call_storage w c = Inr w'"
  shows "shared_store w' (K \<union> keys_set [c])"
proof -
  from assms(1) obtain r st where r: "window_props w ''localStorage'' = Some r"
    "window_props w ''sessionStorage'' = Some r" "heap w r = Some st" "dom st \<subseteq> K"
    by (auto simp: shared_store_def)
  show ?thesis
  proof (cases c)
    case (SetItem name key v)
    with assms(2) r show ?thesis
      by (auto simp: subset_iff dom_def shared_store_def setItem_def set_property_def
          storage_of_def split: sum.splits if_splits option.splits)
  next
    case (RemoveItem name key)
    with assms(2) r show ?thesis
      by (auto simp: subset_iff dom_def shared_store_def removeItem_def delete_property_def
          storage_of_def split: sum.splits if_splits option.splits)
  next
    case (Clear name)
    with assms(2) r show ?thesis
      by (auto simp: subset_iff dom_def shared_store_def clear_def storage_of_def
          split: sum.splits if_splits option.splits)
  qed
qed

lemma keys_set_Cons: "keys_set (c # cs) = keys_set [c] \<union> keys_set cs"
  by (cases c) auto

lemma call_all_shared:
  "shared_store w K \<Longrightarrow> call_all w cs = Inr w' \<Longrightarrow> shared_store w' (K \<union> keys_set cs)"
proof (induction cs arbitrary: w K)
  case Nil
  then show ?case by simp
next
  case (Cons c cs)
  from Cons.prems(2) obtain w1 where w1: "call_storage w c = Inr w1" "call_all w1 cs = Inr w'"
    by (auto split: sum.splits)
  from call_storage_shared [OF Cons.prems(1) w1(1)]
  have "shared_store w1 (K \<union> keys_set [c])" .
  from Cons.IH [OF this w1(2)] show ?case
    by (subst keys_set_Cons) (simp add: Un_assoc)
qed

text \<open>Calls made through the two installed names never throw.\<close>

lemma call_all_names_ok:
  "shared_store w K \<Longrightarrow> \<forall>c \<in> set cs. call_name c \<in> storage_names \<Longrightarrow>
   \<exists>w'. call_all w cs = Inr w'"
proof (induction cs arbitrary: w K)
  case Nil
  then show ?case by simp
next
  case (Cons c cs)
  from Cons.prems obtain r st where r: "window_props w ''localStorage'' = Some r"
    "window_props w ''sessionStorage'' = Some r" "heap w r = Some st"
    by (auto simp: shared_store_def)
  from Cons.prems(2) have n: "call_name c \<in> storage_names" by simp
  have "\<exists>w1. call_storage w c = Inr w1"
    using r n
    by (cases c)
      (auto simp: storage_names_def setItem_def removeItem_def clear_def storage_of_def)
  then obtain w1 where w1: "call_storage w c = Inr w1" by blast
  from call_storage_shared [OF Cons.prems(1) w1]
  have "shared_store w1 (K \<union> keys_set [c])" .
  from Cons.IH [OF this] Cons.prems(2) obtain w' where "call_all w1 cs = Inr w'" by auto
  with w1 show ?case by simp
qed

lemma shared_set_get:
  assumes "shared_store w K" "a \<in> storage_names" "b \<in> storage_names"
  shows "\<exists>w'. setItem w a key v = Inr w' \<and>
           getItem w' b key = Inr (if key = ''__proto__'' then Inherited key
                                   else if v = [] then Null else Str v)"
  using assms
  by (auto simp: shared_store_def storage_names_def setItem_def getItem_def storage_of_def
      set_property_def get_property_def or_null_def)

lemma shared_clear_get:
  assumes "shared_store w K" "a \<in> storage_names" "b \<in> storage_names"
  shows "\<exists>w'. clear w a = Inr w' \<and>
           getItem w' b key =
             Inr (if key \<in> set object_prototype_keys then Inherited key else Null)"
  using assms
  by (auto simp: shared_store_def storage_names_def clear_def getItem_def storage_of_def
      get_property_def or_null_def object_prototype_keys_def)

lemma shared_get_unset:
  assumes "shared_store w K" "a \<in> storage_names" "key \<notin> K"
  shows "getItem w a key =
           Inr (if key \<in> set object_prototype_keys then Inherited key else Null)"
proof -
  from assms(1) obtain r st where r: "window_props w ''localStorage'' = Some r"
    "window_props w ''sessionStorage'' = Some r" "heap w r = Some st" "dom st \<subseteq> K"
    by (auto simp: shared_store_def)
  with assms(3) have "st key = None" by auto
  with r assms(2) show ?thesis
    by (auto simp: storage_names_def getItem_def storage_of_def
      get_property_def or_null_def object_prototype_keys_def)
qed

text \<open>
  What holds of the mock in full. After the setup file has installed it, and after any
  calls a test makes, \<open>window.localStorage\<close> and \<open>window.sessionStorage\<close> are defined and
  refer to the same object, so what is set or cleared through one name is what is read
  through the other. What \<open>getItem\<close> returns is \<open>store[key] || null\<close> on a plain object:
  the value that was set unless it is empty or the key is \<open>__proto__\<close>, and for a key that
  is not an own property, the inherited member if the key names one and \<open>null\<close> otherwise.
\<close>

lemma storage_mock_shared_backing:
  assumes "call_all (install_storage_mocks w0) cs = Inr w"
    and "a \<in> storage_names" and "b \<in> storage_names"
  shows "window_props w ''localStorage'' = window_props w ''sessionStorage''
     \<and> window_props w ''localStorage'' \<noteq> None
     \<and> (\<exists>w'. setItem w a key v = Inr w'
           \<and> getItem w' b key = Inr (if key = ''__proto__'' then Inherited key
                                      else if v = [] then Null else Str v))
     \<and> (\<exists>w'. clear w a = Inr w'
           \<and> getItem w' b key
               = Inr (if key \<in> set object_prototype_keys then Inherited key else Null))
     \<and> (key \<notin> keys_set cs \<longrightarrow>
          getItem w a key
            = Inr (if key \<in> set object_prototype_keys then Inherited key else Null))"
proof -
  have sh: "shared_store w (keys_set cs)"
    using call_all_shared [OF install_shared assms(1)] by simp
  then have "window_props w ''localStorage'' = window_props w ''sessionStorage''"
    and "window_props w ''localStorage'' \<noteq> None"
    by (auto simp: shared_store_def)
  moreover note shared_set_get [OF sh assms(2,3), of key v]
  moreover note shared_clear_get [OF sh assms(2,3), of key]
  moreover have "key \<notin> keys_set cs \<longrightarrow>
      getItem w a key
        = Inr (if key \<in> set object_prototype_keys then Inherited key else Null)"
    using shared_get_unset [OF sh assms(2), of key] by blast
  ultimately show ?thesis by blast
qed

text \<open>
  C9. The two storages share one mock, a value set through either is visible through the
  other, and \<open>getItem\<close> returns \<open>null\<close> for any key never set. The mock does not do this
  at two inputs. A key set to the empty string through \<open>localStorage\<close> reads back through
  \<open>sessionStorage\<close> as \<open>null\<close>, not as the empty string that was set: \<open>store[key] || null\<close>
  takes the empty string for a missing value. And in the freshly installed mock the key
  \<open>toString\<close>, which no test has set, reads as the member inherited from
  \<open>Object.prototype\<close>, not as \<open>null\<close>: the store is a plain object.
\<close>

theorem storage_mock_getItem_divergence:
  "(case setItem (install_storage_mocks empty_window) ''localStorage'' ''k'' [] of
      Inl err \<Rightarrow> Inl err
    | Inr w \<Rightarrow> getItem w ''sessionStorage'' ''k'') = Inr Null
   \<and> Null \<noteq> Str []
   \<and> getItem (install_storage_mocks empty_window) ''localStorage'' ''toString''
       = Inr (Inherited ''toString'')
   \<and> Inherited ''toString'' \<noteq> Null"
  by (simp add: install_storage_mocks_def empty_window_def setItem_def getItem_def
      storage_of_def set_property_def get_property_def or_null_def
      object_prototype_keys_def Let_def)

section \<open>Properties of path.join\<close>

lemma split_on_nonempty: "split_on c xs \<noteq> []"
  by (induction xs) (auto split: list.splits)

lemma split_on_no_sep: "c \<notin> set s \<Longrightarrow> split_on c s = [s]"
  by (induction s) auto

lemma split_on_append:
  "c \<notin> set s \<Longrightarrow>
   split_on c (q @ s) = butlast (split_on c q) @ [last (split_on c q) @ s]"
proof (induction q)
  case Nil
  then show ?case by (simp add: split_on_no_sep)
next
  case (Cons x q)
  obtain a as where a: "split_on c q = a # as"
    using split_on_nonempty [of c q] by (cases "split_on c q") auto
  show ?case
  proof (cases "x = c")
    case True
    with Cons a show ?thesis by simp
  next
    case False
    with Cons a show ?thesis by (cases as) auto
  qed
qed

lemma normalize_segments_snoc:
  "s \<noteq> [] \<Longrightarrow> s \<noteq> ''.'' \<Longrightarrow> s \<noteq> ''..'' \<Longrightarrow>
   normalize_segments a res (ss @ [s]) = s # normalize_segments a res ss"
  by (induction a res ss rule: normalize_segments.induct) (auto split: list.splits)

lemma join_with_snoc:
  "\<exists>pre. join_with sep (xs @ [s]) = pre @ s"
proof (induction xs)
  case Nil
  then show ?case by simp
next
  case (Cons x xs)
  then obtain pre where "join_with sep (xs @ [s]) = pre @ s" by blast
  then show ?case by (cases xs) auto
qed


lemma path_normalize_suffix:
  assumes "sfx \<noteq> []" "CHR ''/'' \<notin> set sfx" "3 \<le> length sfx"
  shows "\<exists>pre. path_normalize (q @ sfx) = pre @ sfx"
proof -
  let ?segs = "split_on CHR ''/'' (q @ sfx)"
  let ?l = "last (split_on CHR ''/'' q) @ sfx"
  have segs: "?segs = butlast (split_on CHR ''/'' q) @ [?l]"
    using assms(2) by (rule split_on_append)
  have l: "?l \<noteq> []" "?l \<noteq> ''.''" "?l \<noteq> ''..''"
    using assms by (auto simp: append_eq_Cons_conv)
  have lst: "last (q @ sfx) \<noteq> CHR ''/''"
    using assms(1,2) by (metis last_appendR last_in_set)
  have ne: "q @ sfx \<noteq> []" using assms(1) by simp
  obtain pre where pre: "join_with ''/'' (rev (normalize_segments (hd (q @ sfx) \<noteq> CHR ''/'') []
        (split_on CHR ''/'' (q @ sfx)))) = pre @ ?l"
    using join_with_snoc [of "''/''" _ ?l]
    by (simp only: segs normalize_segments_snoc [OF l] rev.simps) blast
  have nonempty: "pre @ ?l \<noteq> []" using l(1) by simp
  show ?thesis
    using ne lst pre nonempty
    apply (simp only: path_normalize_def Let_def if_False)
    apply (simp only: pre)
    apply (auto)
    done
qed


lemma path_join_suffix:
  assumes "sfx \<noteq> []" "CHR ''/'' \<notin> set sfx" "3 \<le> length sfx"
  shows "\<exists>pre. path_join [d, n @ sfx] = pre @ sfx"
proof -
  have "\<exists>q. join_with ''/'' (filter (\<lambda>a. a \<noteq> []) [d, n @ sfx]) = q @ sfx"
    using assms(1) by (cases "d = []") auto
  then obtain q where q: "join_with ''/'' (filter (\<lambda>a. a \<noteq> []) [d, n @ sfx]) = q @ sfx"
    by blast
  have "q @ sfx \<noteq> []" using assms(1) by simp
  with q path_normalize_suffix [OF assms, of q] show ?thesis
    by (simp add: path_join_def Let_def)
qed

lemma testFile_neq_componentFile: "testFile dirname name \<noteq> componentFile dirname name"
proof
  assume eq: "testFile dirname name = componentFile dirname name"
  obtain p1 where p1: "testFile dirname name = p1 @ ''.test.ts''"
    using path_join_suffix [of "''.test.ts''" "componentsDir dirname" name]
    by (auto simp: testFile_def)
  obtain p2 where p2: "componentFile dirname name = p2 @ ''.vue''"
    using path_join_suffix [of "''.vue''" "componentsDir dirname" name]
    by (auto simp: componentFile_def)
  from eq p1 p2 have "last (p1 @ ''.test.ts'') = last (p2 @ ''.vue'')" by simp
  then show False by simp
qed

section \<open>Properties of path.join, continued\<close>






















section \<open>Properties of create-tdd-component.js\<close>

lemma scaffold_guard:
  "falsy (array_get argv 2) \<Longrightarrow>
   create_tdd_component rt dirname argv fs =
     \<lparr> exit_code = 1, stdout = [usage_scaffold],
       stderr = [cross_mark @ '' Please provide a component name''], disk = fs \<rparr>"
  by (auto simp: create_tdd_component_def falsy_def Let_def split: option.splits)

text \<open>The script past its guard and its directory step.\<close>

lemma scaffold_after_dir:
  assumes "array_get argv 2 = Some name" "name \<noteq> []"
    and "ensure_components_dir fs (componentsDir dirname) = Inr fs1"
  shows "create_tdd_component rt dirname argv fs =
    (if existsSync fs1 (testFile dirname name) then
       \<lparr> exit_code = 1, stdout = [],
         stderr = [test_file_exists_msg (testFile dirname name)], disk = fs1 \<rparr>
     else if existsSync fs1 (componentFile dirname name) then
       \<lparr> exit_code = 1, stdout = [],
         stderr = [component_file_exists_msg (componentFile dirname name)], disk = fs1 \<rparr>
     else
       (case writeFileSync fs1 (testFile dirname name)
               (testTemplate rt name (issueDescription_of argv)) of
          Inl e \<Rightarrow>
            \<lparr> exit_code = 1, stdout = [], stderr = [error_creating_files_msg e], disk = fs1 \<rparr>
        | Inr fs2 \<Rightarrow>
            (case writeFileSync fs2 (componentFile dirname name) (componentTemplate rt name) of
               Inl e \<Rightarrow>
                 \<lparr> exit_code = 1, stdout = [created_test_file_msg (testFile dirname name)],
                   stderr = [error_creating_files_msg e], disk = fs2 \<rparr>
             | Inr fs3 \<Rightarrow>
                 \<lparr> exit_code = 0,
                   stdout = [created_test_file_msg (testFile dirname name),
                          created_component_file_msg (componentFile dirname name)]
                         @ next_steps,
                   stderr = [], disk = fs3 \<rparr>)))"
  using assms by (simp add: create_tdd_component_def Let_def)

lemma scaffold_dir_failed:
  assumes "array_get argv 2 = Some name" "name \<noteq> []"
    and "ensure_components_dir fs (componentsDir dirname) = Inl (e, fs1)"
  shows "create_tdd_component rt dirname argv fs = uncaught e [] [] fs1"
  using assms by (simp add: create_tdd_component_def Let_def)

text \<open>
  The recursive \<open>mkdir\<close> changes nothing that exists: all it adds are directories on the
  way to its path, whether it ends well or not.
\<close>

lemma mkdir_all_frame:
  "mkdir_all fs ps = Inr fs1 \<or> mkdir_all fs ps = Inl (e, fs1) \<Longrightarrow>
   (\<forall>p. entries fs1 p = entries fs p
        \<or> (entries fs p = None \<and> entries fs1 p = Some Directory \<and> p \<in> set ps))
   \<and> failing fs1 = failing fs \<and> io_error fs1 = io_error fs"
proof (induction ps arbitrary: fs)
  case Nil
  then show ?case by simp
next
  case (Cons q ps)
  show ?case
  proof (cases "entries fs q")
    case None
    show ?thesis
    proof (cases "q \<in> failing fs")
      case True
      with None Cons.prems show ?thesis by simp
    next
      case False
      let ?fs = "fs\<lparr> entries := (entries fs)(q \<mapsto> Directory) \<rparr>"
      from None False Cons.prems
      have "mkdir_all ?fs ps = Inr fs1 \<or> mkdir_all ?fs ps = Inl (e, fs1)" by simp
      from Cons.IH [OF this]
      have ih: "\<forall>p. entries fs1 p = entries ?fs p
           \<or> (entries ?fs p = None \<and> entries fs1 p = Some Directory \<and> p \<in> set ps)"
        and rest: "failing fs1 = failing fs" "io_error fs1 = io_error fs"
        by simp_all
      have "\<forall>p. entries fs1 p = entries fs p
           \<or> (entries fs p = None \<and> entries fs1 p = Some Directory \<and> p \<in> set (q # ps))"
      proof
        fix p
        from ih have "entries fs1 p = entries ?fs p
           \<or> (entries ?fs p = None \<and> entries fs1 p = Some Directory \<and> p \<in> set ps)" ..
        with None show "entries fs1 p = entries fs p
           \<or> (entries fs p = None \<and> entries fs1 p = Some Directory \<and> p \<in> set (q # ps))"
          by (cases "p = q") auto
      qed
      with rest show ?thesis by simp
    qed
  next
    case (Some en)
    show ?thesis
    proof (cases en)
      case (File c)
      with Some Cons.prems show ?thesis by simp
    next
      case Directory
      with Some Cons.prems
      have "mkdir_all fs ps = Inr fs1 \<or> mkdir_all fs ps = Inl (e, fs1)" by simp
      from Cons.IH [OF this] show ?thesis by auto
    qed
  qed
qed

text \<open>The error of a recursive \<open>mkdir\<close> is the error at one of the directories on the way.\<close>

lemma mkdir_all_error:
  "mkdir_all fs ps = Inl (e, fs1) \<Longrightarrow> \<exists>p \<in> set ps. e = io_error fs p"
proof (induction ps arbitrary: fs)
  case Nil
  then show ?case by simp
next
  case (Cons q ps)
  show ?case
  proof (cases "entries fs q")
    case None
    show ?thesis
    proof (cases "q \<in> failing fs")
      case True
      with None Cons.prems show ?thesis by auto
    next
      case False
      with None Cons.prems
      have "mkdir_all (fs\<lparr> entries := (entries fs)(q \<mapsto> Directory) \<rparr>) ps = Inl (e, fs1)"
        by simp
      from Cons.IH [OF this] show ?thesis by auto
    qed
  next
    case (Some en)
    show ?thesis
    proof (cases en)
      case (File c)
      with Some Cons.prems show ?thesis by auto
    next
      case Directory
      with Some Cons.prems have "mkdir_all fs ps = Inl (e, fs1)" by simp
      from Cons.IH [OF this] show ?thesis by auto
    qed
  qed
qed


lemma ensure_components_dir_frame:
  assumes "ensure_components_dir fs dir = Inr fs1 \<or> ensure_components_dir fs dir = Inl (e, fs1)"
  shows "(\<forall>p. entries fs1 p = entries fs p
        \<or> (entries fs p = None \<and> entries fs1 p = Some Directory
           \<and> p \<in> set (path_prefixes dir)))
   \<and> failing fs1 = failing fs \<and> io_error fs1 = io_error fs"
proof (cases "existsSync fs dir")
  case True
  with assms show ?thesis by (simp add: ensure_components_dir_def)
next
  case False
  with assms have "mkdir_all fs (path_prefixes dir) = Inr fs1
      \<or> mkdir_all fs (path_prefixes dir) = Inl (e, fs1)"
    by (simp add: ensure_components_dir_def mkdirSync_def)
  then show ?thesis by (rule mkdir_all_frame)
qed

lemma ensure_components_dir_error:
  "ensure_components_dir fs dir = Inl (e, fs1) \<Longrightarrow>
   \<exists>p \<in> set (path_prefixes dir). e = io_error fs p"
  by (cases "existsSync fs dir")
    (auto simp: ensure_components_dir_def mkdirSync_def dest: mkdir_all_error)

lemma ensure_components_dir_keeps:
  assumes "ensure_components_dir fs dir = Inr fs1"
  shows "existsSync fs p \<Longrightarrow> existsSync fs1 p"
proof -
  assume p: "existsSync fs p"
  from ensure_components_dir_frame [of fs dir fs1 undefined] assms
  have "entries fs1 p = entries fs p
        \<or> (entries fs p = None \<and> entries fs1 p = Some Directory
           \<and> p \<in> set (path_prefixes dir))" by blast
  with p show ?thesis by (auto simp: existsSync_def)
qed

lemma scaffold_success:
  assumes "exit_code (create_tdd_component rt dirname argv fs) = 0"
    and "array_get argv 2 = Some name"
  shows "\<exists>fs1. ensure_components_dir fs (componentsDir dirname) = Inr fs1
     \<and> disk (create_tdd_component rt dirname argv fs)
         = fs1\<lparr> entries := (entries fs1)
               (testFile dirname name \<mapsto> File (testTemplate rt name (issueDescription_of argv)),
                componentFile dirname name \<mapsto> File (componentTemplate rt name)) \<rparr>"
proof -
  have n: "name \<noteq> []"
    using assms by (auto simp: create_tdd_component_def Let_def)
  show ?thesis
  proof (cases "ensure_components_dir fs (componentsDir dirname)")
    case (Inl err)
    obtain e fs1 where "err = (e, fs1)" by (cases err)
    with Inl have l: "ensure_components_dir fs (componentsDir dirname) = Inl (e, fs1)"
      by simp
    from assms(1) show ?thesis
      unfolding scaffold_dir_failed [OF assms(2) n l] by (simp add: uncaught_def)
  next
    case (Inr fs1)
    from assms(1) show ?thesis
      unfolding scaffold_after_dir [OF assms(2) n Inr]
      by (auto simp: Inr writeFileSync_def split: if_splits)
  qed
qed

text \<open>The templates take nothing from the runtime but \<open>toLowerCase\<close>.\<close>

lemma templates_runtime:
  assumes "toLowerCase rt = toLowerCase rt'"
  shows "testTemplate rt name d = testTemplate rt' name d"
    and "componentTemplate rt name = componentTemplate rt' name"
  using assms by (simp_all add: testTemplate_def componentTemplate_def)

lemma componentsDir_repo: "componentsDir ''/repo/scripts'' = ''/repo/src/components''"
  by code_simp



text \<open>
  What the script does for any component name at all when a target exists. It exits with
  status 1, prints nothing on standard output and writes no file: every entry of the
  filesystem is as it was, except that directories missing on the way to the components
  directory may have been created. If the components directory exists, nothing at all is
  changed. The script reports a path that exists (that of the test file, or else that of
  the component file) whenever the components directory exists or can be created;
  otherwise it ends on the error of creating that directory or one above it, which is
  all it reports then.
\<close>

lemma scaffold_conflict_general:
  assumes "array_get argv 2 = Some name" and "name \<noteq> []"
    and "existsSync fs (testFile dirname name) \<or> existsSync fs (componentFile dirname name)"
  shows "exit_code (create_tdd_component rt dirname argv fs) = 1
     \<and> stdout (create_tdd_component rt dirname argv fs) = []
     \<and> (\<forall>p. entries (disk (create_tdd_component rt dirname argv fs)) p = entries fs p
            \<or> (entries fs p = None
               \<and> entries (disk (create_tdd_component rt dirname argv fs)) p = Some Directory
               \<and> p \<in> set (path_prefixes (componentsDir dirname))))
     \<and> (existsSync fs (componentsDir dirname) \<longrightarrow>
           disk (create_tdd_component rt dirname argv fs) = fs)
     \<and> (case ensure_components_dir fs (componentsDir dirname) of
          Inr fs1 \<Rightarrow>
            (existsSync (disk (create_tdd_component rt dirname argv fs))
               (testFile dirname name)
             \<and> stderr (create_tdd_component rt dirname argv fs)
                 = [test_file_exists_msg (testFile dirname name)])
            \<or> (existsSync (disk (create_tdd_component rt dirname argv fs))
                  (componentFile dirname name)
               \<and> stderr (create_tdd_component rt dirname argv fs)
                   = [component_file_exists_msg (componentFile dirname name)])
        | Inl (e, fs1) \<Rightarrow>
            stderr (create_tdd_component rt dirname argv fs) = [stack e]
            \<and> (\<exists>p \<in> set (path_prefixes (componentsDir dirname)). e = io_error fs p))"
proof (cases "ensure_components_dir fs (componentsDir dirname)")
  case (Inl err)
  obtain e fs1 where err: "err = (e, fs1)" by (cases err)
  with Inl have l: "ensure_components_dir fs (componentsDir dirname) = Inl (e, fs1)" by simp
  have r: "create_tdd_component rt dirname argv fs = uncaught e [] [] fs1"
    by (rule scaffold_dir_failed [OF assms(1,2) l])
  have missing: "\<not> existsSync fs (componentsDir dirname)"
    using l by (auto simp: ensure_components_dir_def)
  from ensure_components_dir_frame [of fs "componentsDir dirname" fs1 e] l
  have frame: "\<forall>p. entries fs1 p = entries fs p
        \<or> (entries fs p = None \<and> entries fs1 p = Some Directory
           \<and> p \<in> set (path_prefixes (componentsDir dirname)))" by blast
  have "\<forall>p. entries (disk (create_tdd_component rt dirname argv fs)) p = entries fs p
            \<or> (entries fs p = None
               \<and> entries (disk (create_tdd_component rt dirname argv fs)) p = Some Directory
               \<and> p \<in> set (path_prefixes (componentsDir dirname)))"
    unfolding r using frame by (simp add: uncaught_def)
  moreover have "exit_code (create_tdd_component rt dirname argv fs) = 1"
    "stdout (create_tdd_component rt dirname argv fs) = []"
    "stderr (create_tdd_component rt dirname argv fs) = [stack e]"
    unfolding r by (simp_all add: uncaught_def)
  moreover note ensure_components_dir_error [OF l] missing
  ultimately show ?thesis by (simp add: l)
next
  case (Inr fs1)
  from ensure_components_dir_frame [of fs "componentsDir dirname" fs1 undefined] Inr
  have frame: "\<forall>p. entries fs1 p = entries fs p
        \<or> (entries fs p = None \<and> entries fs1 p = Some Directory
           \<and> p \<in> set (path_prefixes (componentsDir dirname)))" by blast
  have ex: "existsSync fs1 (testFile dirname name) \<or> existsSync fs1 (componentFile dirname name)"
    using assms(3) ensure_components_dir_keeps [OF Inr] by blast
  have same: "existsSync fs (componentsDir dirname) \<longrightarrow> fs1 = fs"
    using Inr by (auto simp: ensure_components_dir_def split: if_splits)
  consider (t) "existsSync fs1 (testFile dirname name)"
    | (c) "\<not> existsSync fs1 (testFile dirname name)"
          "existsSync fs1 (componentFile dirname name)"
    using ex by blast
  then show ?thesis
  proof cases
    case t
    have r: "create_tdd_component rt dirname argv fs =
        \<lparr> exit_code = 1, stdout = [],
          stderr = [test_file_exists_msg (testFile dirname name)], disk = fs1 \<rparr>"
      using scaffold_after_dir [OF assms(1,2) Inr] t by simp
    have "existsSync (disk (create_tdd_component rt dirname argv fs)) (testFile dirname name)"
      unfolding r using t by simp
    moreover have "\<forall>p. entries (disk (create_tdd_component rt dirname argv fs)) p
              = entries fs p
            \<or> (entries fs p = None
               \<and> entries (disk (create_tdd_component rt dirname argv fs)) p = Some Directory
               \<and> p \<in> set (path_prefixes (componentsDir dirname)))"
      unfolding r using frame by simp
    moreover have "existsSync fs (componentsDir dirname) \<longrightarrow>
           disk (create_tdd_component rt dirname argv fs) = fs"
      unfolding r using same by simp
    moreover have "exit_code (create_tdd_component rt dirname argv fs) = 1"
      "stdout (create_tdd_component rt dirname argv fs) = []"
      "stderr (create_tdd_component rt dirname argv fs)
         = [test_file_exists_msg (testFile dirname name)]"
      unfolding r by simp_all
    ultimately show ?thesis by (simp only: Inr sum.case simp_thms)
  next
    case c
    have r: "create_tdd_component rt dirname argv fs =
        \<lparr> exit_code = 1, stdout = [],
          stderr = [component_file_exists_msg (componentFile dirname name)],
          disk = fs1 \<rparr>"
      using scaffold_after_dir [OF assms(1,2) Inr] c by simp
    have "existsSync (disk (create_tdd_component rt dirname argv fs))
        (componentFile dirname name)"
      unfolding r using c by simp
    moreover have "\<forall>p. entries (disk (create_tdd_component rt dirname argv fs)) p
              = entries fs p
            \<or> (entries fs p = None
               \<and> entries (disk (create_tdd_component rt dirname argv fs)) p = Some Directory
               \<and> p \<in> set (path_prefixes (componentsDir dirname)))"
      unfolding r using frame by simp
    moreover have "existsSync fs (componentsDir dirname) \<longrightarrow>
           disk (create_tdd_component rt dirname argv fs) = fs"
      unfolding r using same by simp
    moreover have "exit_code (create_tdd_component rt dirname argv fs) = 1"
      "stdout (create_tdd_component rt dirname argv fs) = []"
      "stderr (create_tdd_component rt dirname argv fs)
         = [component_file_exists_msg (componentFile dirname name)]"
      unfolding r by simp_all
    ultimately show ?thesis by (simp only: Inr sum.case simp_thms)
  qed
qed

text \<open>
  The last case needs a component name that is a path. With the name \<open>../Button\<close> the
  test file is derived as \<open>src/Button.test.ts\<close>, outside the components directory; in
  the checkout below it exists, the components directory does not and cannot be created.
  The directory step (lines 139-142) runs before the two existence checks and outside the
  \<open>try\<close>, so the script ends on the directory error.
\<close>

lemma scaffold_directory_error_example:
  "existsSync readonly_checkout (testFile ''/repo/scripts'' ''../Button'')
   \<and> exit_code (create_tdd_component (sample_runtime []) ''/repo/scripts''
         [''node'', ''create-tdd-component.js'', ''../Button''] readonly_checkout) = 1
   \<and> stderr (create_tdd_component (sample_runtime []) ''/repo/scripts''
         [''node'', ''create-tdd-component.js'', ''../Button''] readonly_checkout)
       = [''Error: EACCES: permission denied, /repo/src/components'']"
  by code_simp




section \<open>Properties of generate-tests-from-issue.js\<close>

lemma batch_missing:
  "falsy (array_get argv 2) \<or> falsy (array_get argv 3) \<Longrightarrow>
   generate_tests_from_issue JSON_parse lib argv =
     \<lparr> exit_code = 1, stdout = [], stderr = [usage_batch], calls = [] \<rparr>"
  by (simp add: generate_tests_from_issue_def Let_def)

text \<open>
  C1 as stated fails. An invocation whose first argument is given but empty exits with
  status 1 at the guard \<open>!componentName\<close>, before anything is parsed or validated,
  although no argument is missing. And the \<open>catch\<close> block turns every exception of the
  \<open>try\<close> block into status 1, not only a failure of \<open>JSON.parse\<close>: with a validator
  that throws on the parseable payload \<open>null\<close>, the run exits with status 1 although no
  validation returned \<open>valid = false\<close>.
\<close>

theorem batch_exit_status_counterexample:
  \<open>array_get [''node'', ''generate-tests-from-issue.js'', [],
       ''{"acceptanceCriteria":["Given a, when b, then c"]}''] 2 = Some []
   \<and> sample_parse ''{"acceptanceCriteria":["Given a, when b, then c"]}''
       = Inr (JRequirements [''Given a, when b, then c''])
   \<and> exit_code (generate_tests_from_issue sample_parse sample_generator
        [''node'', ''generate-tests-from-issue.js'', [],
         ''{"acceptanceCriteria":["Given a, when b, then c"]}'']) = 1
   \<and> calls (generate_tests_from_issue sample_parse sample_generator
        [''node'', ''generate-tests-from-issue.js'', [],
         ''{"acceptanceCriteria":["Given a, when b, then c"]}'']) = []
   \<and> sample_parse ''null'' = Inr JNull
   \<and> isl (validateRequirements sample_generator JNull)
   \<and> exit_code (generate_tests_from_issue sample_parse sample_generator
        [''node'', ''generate-tests-from-issue.js'', ''Button'', ''null'']) = 1
   \<and> calls (generate_tests_from_issue sample_parse sample_generator
        [''node'', ''generate-tests-from-issue.js'', ''Button'', ''null''])
       = [ValidateRequirements]\<close>
  by code_simp

text \<open>
  C1 (amended). For every invocation of the batch generator: the process exits with
  status 0 if both arguments are given and non-empty, \<open>JSON.parse\<close> returns a value,
  \<open>validateRequirements\<close> returns a result with \<open>valid = true\<close>, \<open>generateTestContent\<close>
  returns a text, and \<open>performFullValidation\<close> returns a result with \<open>valid = true\<close>.
  On every other invocation (an argument absent or empty, a step that throws, or a
  validation that returns \<open>valid = false\<close>) it exits with status 1.
\<close>

theorem batch_exit_status:
  "exit_code (generate_tests_from_issue JSON_parse lib argv) =
     (if \<not> falsy (array_get argv 2) \<and> \<not> falsy (array_get argv 3) \<and>
         (\<exists>requirements validation testContent contentValidation.
            JSON_parse (interpolate (array_get argv 3)) = Inr requirements
          \<and> validateRequirements lib requirements = Inr validation \<and> valid validation
          \<and> generateTestContent lib (interpolate (array_get argv 2)) requirements
               (metadata_of (array_get argv 4) (array_get argv 5)) = Inr testContent
          \<and> performFullValidation lib testContent (interpolate (array_get argv 2))
               = Inr contentValidation
          \<and> valid contentValidation)
      then 0 else 1)"
  by (auto simp: generate_tests_from_issue_def Let_def error_generating_tests_def
      split: sum.splits)

theorem batch_exit_status_witness:
  \<open>exit_code (generate_tests_from_issue sample_parse sample_generator
      [''node'', ''generate-tests-from-issue.js'', ''Button'',
       ''{"acceptanceCriteria":["Given a, when b, then c"]}'']) = 0
   \<and> exit_code (generate_tests_from_issue sample_parse sample_generator
      [''node'', ''generate-tests-from-issue.js'', ''Button'', ''{}'']) = 1
   \<and> exit_code (generate_tests_from_issue sample_parse sample_generator
      [''node'', ''generate-tests-from-issue.js'', ''Button'', ''{not json'']) = 1
   \<and> exit_code (generate_tests_from_issue sample_parse sample_generator
      [''node'', ''generate-tests-from-issue.js'', ''Button'']) = 1\<close>
  by (simp add: batch_exit_status array_get_def falsy_def interpolate_def sample_parse_def
      sample_generator_def metadata_of_def)

text \<open>
  C2. In the batch flow, standard output holds the sentinel-wrapped block (the
  \<open>TEST_CONTENT_START\<close> line, the generated text, the \<open>TEST_CONTENT_END\<close> line) if and
  only if both the requirements validation and the content validation have passed, and is
  empty otherwise. The library calls a run makes are an initial part of
  \<open>validateRequirements\<close>, \<open>generateTestContent\<close>, \<open>performFullValidation\<close>, in this order,
  and the generator is called exactly when the requirements validation has passed.
\<close>

theorem batch_sentinel_block:
  "stdout (generate_tests_from_issue JSON_parse lib argv) =
     (if requirements_validation_passed JSON_parse lib argv
         \<and> content_validation_passed JSON_parse lib argv
      then [''TEST_CONTENT_START'',
            case generated_text JSON_parse lib argv of None \<Rightarrow> [] | Some t \<Rightarrow> t,
            ''TEST_CONTENT_END'']
      else [])
   \<and> calls (generate_tests_from_issue JSON_parse lib argv)
       \<in> set [[], [ValidateRequirements], [ValidateRequirements, GenerateTestContent],
               [ValidateRequirements, GenerateTestContent, PerformFullValidation]]
   \<and> (GenerateTestContent \<in> set (calls (generate_tests_from_issue JSON_parse lib argv)))
       = requirements_validation_passed JSON_parse lib argv
"
  by (auto simp: generate_tests_from_issue_def Let_def error_generating_tests_def
      requirements_validation_passed_def content_validation_passed_def generated_text_def
      split: sum.splits)

theorem batch_sentinel_block_witness:
  \<open>stdout (generate_tests_from_issue sample_parse sample_generator
      [''node'', ''generate-tests-from-issue.js'', ''Button'',
       ''{"acceptanceCriteria":["Given a, when b, then c"]}''])
     = [''TEST_CONTENT_START'', ''describe(Button)'', ''TEST_CONTENT_END'']
   \<and> stdout (generate_tests_from_issue sample_parse sample_generator
      [''node'', ''generate-tests-from-issue.js'', ''Button'', ''{}'']) = []\<close>
  by (simp add: batch_sentinel_block array_get_def falsy_def interpolate_def sample_parse_def
      sample_generator_def metadata_of_def requirements_validation_passed_def
      content_validation_passed_def generated_text_def)

section \<open>The component name is required\<close>

text \<open>
  The two scripts that take the component name as their first argument test it first.
  With the name absent or empty the scaffold generator prints its error, exits with
  status 1 and leaves the filesystem as it was; the batch generator prints its usage
  line, exits with status 1, calls nothing of the library and writes nothing to standard
  output.
\<close>

lemma argv_component_name_required:
  assumes "falsy (array_get argv 2)"
  shows "exit_code (create_tdd_component rt dirname argv fs) = 1
     \<and> stderr (create_tdd_component rt dirname argv fs)
         = [cross_mark @ '' Please provide a component name'']
     \<and> disk (create_tdd_component rt dirname argv fs) = fs
     \<and> exit_code (generate_tests_from_issue JSON_parse lib argv) = 1
     \<and> stderr (generate_tests_from_issue JSON_parse lib argv) = [usage_batch]
     \<and> stdout (generate_tests_from_issue JSON_parse lib argv) = []
     \<and> calls (generate_tests_from_issue JSON_parse lib argv) = []"
  using assms by (simp add: scaffold_guard batch_missing)

section \<open>Properties of the interactive flow\<close>

text \<open>The example input answers every prompt of the collection phase.\<close>

lemma collect_sample:
  "\<exists>s. collect (start sample_input fs) = Done sample_answers s \<and> input s = [''y'']
     \<and> disk s = fs \<and> commands s = [] \<and> stderr s = [] \<and> exit_code s = 0"
  by (simp add: collect_def start_def sample_input_def sample_answers_def prompt_def
      prompt_until_empty_def console_logs_def console_log_def Let_def)

text \<open>No step of the flow changes the exit status of the process.\<close>

lemma then_do_status:
  "exit_code (session_of m) = c \<Longrightarrow>
   (\<And>v s. exit_code s = c \<Longrightarrow> exit_code (session_of (k v s)) = c) \<Longrightarrow>
   exit_code (session_of (then_do m k)) = c"
  by (cases m) auto

lemma prompt_status: "exit_code s = c \<Longrightarrow> exit_code (session_of (prompt q s)) = c"
  by (simp add: prompt_def split: list.splits)

lemma prompt_until_empty_status:
  "exit_code s = c \<Longrightarrow> exit_code (session_of (prompt_until_empty s)) = c"
  by (simp add: prompt_until_empty_def split: prod.splits option.splits)

lemma console_status:
  "exit_code s = c \<Longrightarrow> exit_code (console_log l s) = c"
  "exit_code s = c \<Longrightarrow> exit_code (console_logs ls s) = c"
  "exit_code s = c \<Longrightarrow> exit_code (console_error l s) = c"
  by (simp_all add: console_log_def console_logs_def console_error_def)

lemma exec_status: "exit_code s = c \<Longrightarrow> exit_code (session_of (exec env command s)) = c"
  by (simp add: exec_def Let_def split: prod.splits sum.splits)

lemma write_file_status:
  "exit_code s = c \<Longrightarrow> exit_code (session_of (write_file p content s)) = c"
  by (simp add: write_file_def split: sum.splits)

lemma done_status: "exit_code s = c \<Longrightarrow> exit_code (session_of (Done v s)) = c"
  by simp

lemma collect_status: "exit_code s = c \<Longrightarrow> exit_code (session_of (collect s)) = c"
  unfolding collect_def Let_def
  by (intro then_do_status prompt_status prompt_until_empty_status console_status done_status)

lemma create_issue_status:
  "exit_code s = c \<Longrightarrow> exit_code (session_of (create_issue env a s)) = c"
proof -
  assume c: "exit_code s = c"
  let ?s = "console_log (newline @ color_green @ sparkles @ '' Creating GitHub issue...''
                   @ color_reset) s"
  have 0: "exit_code ?s = c" using c by (rule console_status)
  have 1: "exit_code (session_of (exec env gh_version_command ?s)) = c"
    using 0 by (rule exec_status)
  show ?thesis
  proof (cases "exec env gh_version_command ?s")
    case (Done v s1)
    with 1 have s1: "exit_code s1 = c" by simp
    have "exit_code (session_of (exec env (gh_issue_command (runtime env) a) s1)) = c"
      using s1 by (rule exec_status)
    with Done show ?thesis
      by (cases "exec env (gh_issue_command (runtime env) a) s1")
        (simp_all add: create_issue_def Let_def console_status)
  next
    case (Threw e s1)
    with 1 have s1: "exit_code s1 = c" by simp
    have "exit_code (session_of (then_do (write_file (issue_filepath env a)
        (issue_file_content (runtime env) a) s1)
        (\<lambda>u s2. Done () (console_logs (issue_saved_lines (issue_filename env a)) s2)))) = c"
      using s1 by (intro then_do_status write_file_status done_status console_status)
    with Threw show ?thesis by (simp add: create_issue_def Let_def)
  next
    case (Waiting s1)
    with 1 show ?thesis by (simp add: create_issue_def Let_def)
  qed
qed

lemma create_branch_status: "exit_code s = c \<Longrightarrow> exit_code (create_branch env a s) = c"
  using exec_status [of s c env "git_checkout_command (runtime env) a"]
  by (cases "exec env (git_checkout_command (runtime env) a) s")
    (simp_all add: create_branch_def console_status)

lemma generate_status:
  "exit_code s = c \<Longrightarrow> exit_code (session_of (generate_component_and_tests env a s)) = c"
  unfolding generate_component_and_tests_def
  apply (rule then_do_status)
   apply (erule exec_status)
  apply (simp split: sum.splits)
  apply (intro conjI allI impI then_do_status write_file_status done_status console_status)
   apply assumption+
  done

lemma local_tdd_setup_status:
  "exit_code s = c \<Longrightarrow> exit_code (session_of (local_tdd_setup env a s)) = c"
  unfolding local_tdd_setup_def
  apply (rule then_do_status)
   apply (erule prompt_status)
  apply (simp add: generate_status create_branch_status console_status)
  done

lemma main_status: "exit_code s = c \<Longrightarrow> exit_code (session_of (main env s)) = c"
  unfolding main_def
  by (intro then_do_status collect_status create_issue_status local_tdd_setup_status)

lemma tdd_feature_status: "exit_code (tdd_feature env lines fs) = 0"
proof -
  have "exit_code (session_of (main env (start lines fs))) = 0"
    by (rule main_status) (simp add: start_def)
  then show ?thesis
    by (cases "main env (start lines fs)") (simp_all add: tdd_feature_def console_status)
qed

text \<open>
  C6. The interactive CLI ends with status 0 on completion, as claimed. It also ends with
  status 0 when \<open>main\<close> throws: the error is printed on the diagnostic stream by
  \<open>main().catch(console.error)\<close> and the status is never set. In the run below the user
  asks for the local setup, the component file exists already, the scaffold subprocess
  exits with status 1 and \<open>execSync\<close> throws: the error is on the diagnostic stream and
  the exit status is 0, where the claim says a non-zero status.
\<close>

theorem tdd_feature_error_exit_status:
  "exit_code (tdd_feature (sample_environment False) sample_input checkout_with_button) = 0
   \<and> stderr (tdd_feature (sample_environment False) sample_input checkout_with_button)
     = [stack (command_failed (scaffold_command sample_answers))]
   \<and> commands (tdd_feature (sample_environment False) sample_input checkout_with_button)
     = [gh_version_command,
        git_checkout_command (runtime (sample_environment False)) sample_answers,
        scaffold_command sample_answers]"
  by code_simp

text \<open>Where the steps of the flow throw, and what they leave.\<close>

lemma exec_thrown:
  "thrown (exec env command s) =
     (case fst (execSync env command (disk s)) of Inl e \<Rightarrow> Some e | Inr v \<Rightarrow> None)"
  by (simp add: exec_def Let_def split: prod.splits sum.splits)

lemma exec_session:
  "session_of (exec env command s) =
     s\<lparr> disk := snd (execSync env command (disk s)), commands := commands s @ [command] \<rparr>"
  by (simp add: exec_def Let_def split: prod.splits sum.splits)

lemma write_file_thrown:
  "thrown (write_file p content s) =
     (case writeFileSync (disk s) p content of Inl e \<Rightarrow> Some e | Inr fs \<Rightarrow> None)"
  by (simp add: write_file_def split: sum.splits)

text \<open>
  The issue tracker's CLI is not there: the issue is written to the file, and the step
  throws exactly when that write does.
\<close>

lemma create_issue_without_cli:
  assumes "fst (execSync env gh_version_command (disk s)) = Inl e"
  shows "thrown (create_issue env a s) =
      (case writeFileSync (snd (execSync env gh_version_command (disk s)))
              (issue_filepath env a) (issue_file_content (runtime env) a) of
         Inl e' \<Rightarrow> Some e' | Inr fs \<Rightarrow> None)"
    and "writeFileSync (snd (execSync env gh_version_command (disk s)))
           (issue_filepath env a) (issue_file_content (runtime env) a) = Inr fs \<Longrightarrow>
         disk (session_of (create_issue env a s)) = fs
         \<and> entries fs (issue_filepath env a)
             = Some (File (issue_file_content (runtime env) a))"
  using assms
  by (auto simp: create_issue_def exec_def Let_def write_file_def console_log_def
      console_logs_def writeFileSync_def split: prod.splits sum.splits if_splits)

text \<open>The CLI is there: whatever \<open>gh issue create\<close> does, nothing is thrown.\<close>

lemma create_issue_with_cli:
  assumes "fst (execSync env gh_version_command (disk s)) = Inr v"
  shows "thrown (create_issue env a s) = None"
    and "fst (execSync env (gh_issue_command (runtime env) a)
               (snd (execSync env gh_version_command (disk s)))) = Inl e \<Longrightarrow>
         stderr (session_of (create_issue env a s))
           = stderr s @ [error_creating_issue_line e]"
  using assms
  by (auto simp: create_issue_def exec_def Let_def console_log_def console_error_def
      console_logs_def split: prod.splits sum.splits)

text \<open>The branch step never throws; after a failure it prints its line and goes on.\<close>

lemma create_branch_session:
  "commands (create_branch env a s) = commands s @ [git_checkout_command (runtime env) a]"
  "disk (create_branch env a s)
     = snd (execSync env (git_checkout_command (runtime env) a) (disk s))"
  "stdout (create_branch env a s) =
     stdout s @ (case fst (execSync env (git_checkout_command (runtime env) a) (disk s)) of
                   Inl e \<Rightarrow> [branch_exists_line (runtime env) a] | Inr v \<Rightarrow> [])"
  by (auto simp: create_branch_def exec_def Let_def console_log_def
      split: prod.splits sum.splits)

lemma generate_component_and_tests_commands:
  "commands (session_of (generate_component_and_tests env a s))
     = commands s @ [scaffold_command a]"
  by (auto simp: generate_component_and_tests_def exec_def Let_def write_file_def
      console_logs_def split: prod.splits sum.splits)

lemma generate_component_and_tests_stdout:
  "set (stdout s) \<subseteq> set (stdout (session_of (generate_component_and_tests env a s)))"
  by (auto simp: generate_component_and_tests_def exec_def Let_def write_file_def
      console_logs_def split: prod.splits sum.splits)

text \<open>
  The scaffold command is run outside any \<open>try\<close>: when it fails the step throws its
  error, the generator is not called and the test file is not written.
\<close>

lemma generate_component_and_tests_scaffold_failed:
  assumes "fst (execSync env (scaffold_command a) (disk s)) = Inl e"
  shows "generate_component_and_tests env a s =
     Threw e (s\<lparr> disk := snd (execSync env (scaffold_command a) (disk s)),
                 commands := commands s @ [scaffold_command a] \<rparr>)"
  using assms
  by (auto simp: generate_component_and_tests_def exec_def Let_def split: prod.splits)

lemma local_tdd_setup_yes:
  assumes "input s = g # rest" and "toLowerCase (runtime env) g = ''y''"
  shows "local_tdd_setup env a s =
     generate_component_and_tests env a
       (create_branch env a
          (console_log (newline @ color_cyan @ rocket @ '' Generating local TDD setup...''
                          @ color_reset)
             (s\<lparr> stdout := stdout s @ [newline @ color_yellow
                      @ ''Generate local TDD setup now? (y/n):'' @ color_reset @ '' ''],
                  input := rest \<rparr>)))"
  using assms by (simp add: local_tdd_setup_def prompt_def)

lemma generate_component_and_tests_done:
  assumes "fst (execSync env (scaffold_command a) (disk s)) = Inr printed"
    and "generateTestContent (package env) (componentName a) (requirements_of a) None
           = Inr testContent"
    and "writeFileSync (snd (execSync env (scaffold_command a) (disk s)))
           (local_test_file env a) testContent = Inr fs"
  shows "thrown (generate_component_and_tests env a s) = None
     \<and> disk (session_of (generate_component_and_tests env a s)) = fs
     \<and> entries fs (local_test_file env a) = Some (File testContent)"
  using assms
  by (auto simp: generate_component_and_tests_def exec_def Let_def write_file_def
      console_logs_def writeFileSync_def split: prod.splits sum.splits if_splits)

text \<open>
  What the flow does catch. If \<open>gh --version\<close> fails, the issue is written to the local
  file (nothing is thrown when that write succeeds, and the file then holds the issue).
  If the CLI is there, nothing is thrown whatever \<open>gh issue create\<close> does. If the user
  asks for the local setup, the scaffold command is run right after the branch command
  whether or not that one failed; after a failure the line "Branch ... may already
  exist, continuing..." is printed, and the generated tests are written when the scaffold
  command, the generator and the write succeed.
\<close>

lemma tracker_and_branch_failures_caught:
  "(\<forall>e fs. fst (execSync env gh_version_command (disk s1)) = Inl e
            \<and> writeFileSync (snd (execSync env gh_version_command (disk s1)))
                 (issue_filepath env a) (issue_file_content (runtime env) a) = Inr fs \<longrightarrow>
            thrown (create_issue env a s1) = None
            \<and> entries (disk (session_of (create_issue env a s1))) (issue_filepath env a)
                = Some (File (issue_file_content (runtime env) a)))
     \<and> (\<forall>v. fst (execSync env gh_version_command (disk s1)) = Inr v \<longrightarrow>
            thrown (create_issue env a s1) = None)
     \<and> (\<forall>s2 g rest. input s2 = g # rest \<and> toLowerCase (runtime env) g = ''y'' \<longrightarrow>
            commands (session_of (local_tdd_setup env a s2))
              = commands s2 @ [git_checkout_command (runtime env) a, scaffold_command a]
            \<and> (\<forall>e. fst (execSync env (git_checkout_command (runtime env) a) (disk s2))
                    = Inl e \<longrightarrow>
                  branch_exists_line (runtime env) a
                    \<in> set (stdout (session_of (local_tdd_setup env a s2))))
            \<and> (\<forall>printed testContent fs.
                  fst (execSync env (scaffold_command a)
                         (snd (execSync env (git_checkout_command (runtime env) a)
                                 (disk s2))))
                    = Inr printed
                  \<and> generateTestContent (package env) (componentName a)
                        (requirements_of a) None = Inr testContent
                  \<and> writeFileSync
                        (snd (execSync env (scaffold_command a)
                                (snd (execSync env (git_checkout_command (runtime env) a)
                                        (disk s2)))))
                        (local_test_file env a) testContent = Inr fs \<longrightarrow>
                  thrown (local_tdd_setup env a s2) = None
                  \<and> entries (disk (session_of (local_tdd_setup env a s2)))
                        (local_test_file env a) = Some (File testContent)))"
proof (intro conjI allI impI)
  fix e fs
  assume h: "fst (execSync env gh_version_command (disk s1)) = Inl e
     \<and> writeFileSync (snd (execSync env gh_version_command (disk s1)))
          (issue_filepath env a) (issue_file_content (runtime env) a) = Inr fs"
  then show "thrown (create_issue env a s1) = None"
    by (simp add: create_issue_without_cli(1))
  from h show "entries (disk (session_of (create_issue env a s1))) (issue_filepath env a)
      = Some (File (issue_file_content (runtime env) a))"
    using create_issue_without_cli(2) by blast
next
  fix v
  assume "fst (execSync env gh_version_command (disk s1)) = Inr v"
  then show "thrown (create_issue env a s1) = None"
    by (rule create_issue_with_cli(1))
next
  fix s2 :: session and g rest
  assume y: "input s2 = g # rest \<and> toLowerCase (runtime env) g = ''y''"
  then show "commands (session_of (local_tdd_setup env a s2))
      = commands s2 @ [git_checkout_command (runtime env) a, scaffold_command a]"
    by (simp add: local_tdd_setup_yes generate_component_and_tests_commands
        create_branch_session console_log_def)
  fix e
  assume "fst (execSync env (git_checkout_command (runtime env) a) (disk s2)) = Inl e"
  then have "branch_exists_line (runtime env) a \<in> set (stdout (create_branch env a
      (console_log (newline @ color_cyan @ rocket @ '' Generating local TDD setup...''
                          @ color_reset)
             (s2\<lparr> stdout := stdout s2 @ [newline @ color_yellow
                      @ ''Generate local TDD setup now? (y/n):'' @ color_reset @ '' ''],
                  input := rest \<rparr>))))"
    by (simp add: create_branch_session console_log_def)
  with y show "branch_exists_line (runtime env) a
      \<in> set (stdout (session_of (local_tdd_setup env a s2)))"
    using generate_component_and_tests_stdout by (auto simp: local_tdd_setup_yes)
next
  fix s2 :: session and g rest printed testContent fs
  assume y: "input s2 = g # rest \<and> toLowerCase (runtime env) g = ''y''"
  assume ok: "fst (execSync env (scaffold_command a)
                         (snd (execSync env (git_checkout_command (runtime env) a)
                                 (disk s2))))
                    = Inr printed
                  \<and> generateTestContent (package env) (componentName a)
                        (requirements_of a) None = Inr testContent
                  \<and> writeFileSync
                        (snd (execSync env (scaffold_command a)
                                (snd (execSync env (git_checkout_command (runtime env) a)
                                        (disk s2)))))
                        (local_test_file env a) testContent = Inr fs"
  let ?s = "create_branch env a
          (console_log (newline @ color_cyan @ rocket @ '' Generating local TDD setup...''
                          @ color_reset)
             (s2\<lparr> stdout := stdout s2 @ [newline @ color_yellow
                      @ ''Generate local TDD setup now? (y/n):'' @ color_reset @ '' ''],
                  input := rest \<rparr>))"
  have d: "disk ?s = snd (execSync env (git_checkout_command (runtime env) a) (disk s2))"
    by (simp add: create_branch_session console_log_def)
  from ok have "thrown (generate_component_and_tests env a ?s) = None
     \<and> disk (session_of (generate_component_and_tests env a ?s)) = fs
     \<and> entries fs (local_test_file env a) = Some (File testContent)"
    by (intro generate_component_and_tests_done [where printed = printed])
      (simp_all only: d)
  with y show "thrown (local_tdd_setup env a s2) = None"
    and "entries (disk (session_of (local_tdd_setup env a s2))) (local_test_file env a)
      = Some (File testContent)"
    by (simp_all add: local_tdd_setup_yes)
qed

text \<open>
  What the flow does not catch. When the user has asked for the local setup and the
  scaffold command fails, \<open>main\<close> ends with the error of that command, whether or not
  the branch command failed before it: the run is aborted, the generator is not called and
  the test file is not written.
\<close>

lemma scaffold_failure_ends_main:
  assumes "collect s0 = Done a s1"
    and "create_issue env a s1 = Done u s2"
    and "input s2 = g # rest" and "toLowerCase (runtime env) g = ''y''"
    and "fst (execSync env (scaffold_command a)
               (snd (execSync env (git_checkout_command (runtime env) a) (disk s2))))
           = Inl e"
  shows "thrown (main env s0) = Some e"
proof -
  let ?s = "create_branch env a
          (console_log (newline @ color_cyan @ rocket @ '' Generating local TDD setup...''
                          @ color_reset)
             (s2\<lparr> stdout := stdout s2 @ [newline @ color_yellow
                      @ ''Generate local TDD setup now? (y/n):'' @ color_reset @ '' ''],
                  input := rest \<rparr>))"
  have d: "disk ?s = snd (execSync env (git_checkout_command (runtime env) a) (disk s2))"
    by (simp add: create_branch_session console_log_def)
  have "fst (execSync env (scaffold_command a) (disk ?s)) = Inl e"
    using assms(5) by (simp only: d)
  then have "thrown (generate_component_and_tests env a ?s) = Some e"
    by (simp add: generate_component_and_tests_scaffold_failed)
  then have "thrown (local_tdd_setup env a s2) = Some e"
    by (simp add: local_tdd_setup_yes [OF assms(3,4)])
  then show ?thesis
    using assms(1,2) by (simp add: main_def)
qed



section \<open>Properties of the generator as specified\<close>

lemma starts_with_append: "starts_with (p @ b) p"
  by (induction p) auto

lemma contains_prefix: "contains (p @ b) p"
proof (cases "p @ b")
  case Nil
  then show ?thesis by simp
next
  case (Cons x xs)
  have "starts_with (p @ b) p" by (rule starts_with_append)
  then show ?thesis unfolding Cons by simp
qed

lemma contains_append: "contains (a @ p @ b) p"
proof (induction a)
  case Nil
  show ?case by (simp add: contains_prefix)
next
  case (Cons x a)
  then show ?case by simp
qed

lemma text_of_lines_append:
  "text_of_lines (xs @ ys) = text_of_lines xs @ text_of_lines ys"
  by (simp add: text_of_lines_def)

lemma text_of_lines_concat:
  "text_of_lines (concat xss) = concat (map text_of_lines xss)"
  by (induction xss) (simp_all add: text_of_lines_append, simp add: text_of_lines_def)

lemma line_in_text:
  "l \<in> set ls \<Longrightarrow> \<exists>pre post. text_of_lines ls = pre @ l @ post"
proof -
  assume "l \<in> set ls"
  then obtain xs ys where "ls = xs @ l # ys" by (auto simp: in_set_conv_decomp)
  then have "text_of_lines ls = text_of_lines xs @ l @ (newline @ text_of_lines ys)"
    by (simp add: text_of_lines_def)
  then show ?thesis by blast
qed

lemma block_in_text:
  "b \<in> set bs \<Longrightarrow>
   \<exists>pre post. text_of_lines (xs @ concat bs @ ys) = pre @ text_of_lines b @ post"
proof -
  assume "b \<in> set bs"
  then obtain us vs where "bs = us @ b # vs" by (auto simp: in_set_conv_decomp)
  then have "text_of_lines (xs @ concat bs @ ys)
      = (text_of_lines xs @ text_of_lines (concat us)) @ text_of_lines b
        @ (text_of_lines (concat vs) @ text_of_lines ys)"
    by (simp add: text_of_lines_append)
  then show ?thesis by blast
qed

lemma red_phase_line_failing: "contains red_phase_line failing_assertion"
  unfolding red_phase_line_def by (rule contains_append)

lemma contains_line:
  assumes "l \<in> set ls" and "\<exists>a b. l = a @ p @ b"
  shows "contains (text_of_lines ls) p"
proof -
  from line_in_text [OF assms(1)] obtain pre post where
    "text_of_lines ls = pre @ l @ post" by blast
  moreover from assms(2) obtain a b where "l = a @ p @ b" by blast
  ultimately have "text_of_lines ls = (pre @ a) @ p @ (b @ post)" by simp
  then show ?thesis using contains_append [of "pre @ a" p "b @ post"] by simp
qed

lemma red_phase_line_decomp: "\<exists>a b. red_phase_line = a @ failing_assertion @ b"
  unfolding red_phase_line_def by blast

lemma acceptance_test_failing:
  "contains (text_of_lines (acceptance_test rt name criterion)) failing_assertion"
  by (rule contains_line [OF _ red_phase_line_decomp]) (simp add: acceptance_test_def)

lemma generated_contains_failing:
  assumes "spec_generateTestContent rt name r meta = Inr content"
  shows "contains content failing_assertion"
proof -
  from assms have c: "content = text_of_lines
          (header_comment name r meta
           @ [[],
              ''import { describe, it, expect } from '' @ [CHR 0x27] @ ''vitest'' @ [CHR 0x27],
              ''import '' @ name @ '' from '' @ [CHR 0x27] @ ''./'' @ name @ ''.vue''
                @ [CHR 0x27],
              [],
              ''describe('' @ [CHR 0x27] @ name @ '' Component'' @ [CHR 0x27]
                @ '', () => {'']
           @ acceptance_group rt name (acceptanceCriteria r)
           @ accessibility_group name
           @ [''});''])"
    by (auto simp: spec_generateTestContent_def split: if_splits)
  have "red_phase_line \<in> set (accessibility_group name)"
    by (simp add: accessibility_group_def)
  then show ?thesis
    unfolding c by (intro contains_line [OF _ red_phase_line_decomp]) simp
qed

lemma generated_contains_acceptance_test:
  assumes "spec_generateTestContent rt name r meta = Inr content"
    and "criterion \<in> set (acceptanceCriteria r)"
  shows "\<exists>pre post. content = pre @ text_of_lines (acceptance_test rt name criterion) @ post"
proof -
  from assms(2) have ne: "acceptanceCriteria r \<noteq> []" by auto
  from assms(1) ne have c: "content = text_of_lines
          ((header_comment name r meta
           @ [[],
              ''import { describe, it, expect } from '' @ [CHR 0x27] @ ''vitest'' @ [CHR 0x27],
              ''import '' @ name @ '' from '' @ [CHR 0x27] @ ''./'' @ name @ ''.vue''
                @ [CHR 0x27],
              [],
              ''describe('' @ [CHR 0x27] @ name @ '' Component'' @ [CHR 0x27]
                @ '', () => {'',
              ''  describe('' @ [CHR 0x27] @ ''Acceptance Criteria'' @ [CHR 0x27]
                @ '', () => {''])
           @ concat (map (acceptance_test rt name) (acceptanceCriteria r))
           @ ([''  });'', []] @ accessibility_group name @ [''});'']))"
    by (auto simp: spec_generateTestContent_def acceptance_group_def split: if_splits)
  have "acceptance_test rt name criterion \<in> set (map (acceptance_test rt name) (acceptanceCriteria r))"
    using assms(2) by simp
  from block_in_text [OF this] show ?thesis unfolding c by blast
qed

text \<open>
  C5. For every text the generator (as the specification describes it) produces, the
  test of every acceptance criterion is part of the text and contains the intentionally
  failing placeholder assertion, and the content validator's \<open>followsTddPattern\<close> flag is
  true on the text.
\<close>

theorem generated_tests_follow_tdd_pattern:
  assumes "spec_generateTestContent rt name r meta = Inr content"
  shows "(\<forall>criterion \<in> set (acceptanceCriteria r).
           (\<exists>pre post. content = pre @ text_of_lines (acceptance_test rt name criterion) @ post)
           \<and> contains (text_of_lines (acceptance_test rt name criterion)) failing_assertion)
     \<and> (\<exists>cv. spec_performFullValidation content name = Inr cv
           \<and> followsTddPattern (summary cv))"
  using generated_contains_acceptance_test [OF assms] acceptance_test_failing
    generated_contains_failing [OF assms]
  by (simp add: spec_performFullValidation_def Let_def)

theorem generated_tests_follow_tdd_pattern_witness:
  "\<exists>content. spec_generateTestContent (sample_runtime []) ''Button'' (requirements_of sample_answers) None
       = Inr content
     \<and> contains (text_of_lines (acceptance_test (sample_runtime []) ''Button'' ''Given a, when b, then c''))
         failing_assertion
     \<and> (\<exists>cv. spec_performFullValidation content ''Button'' = Inr cv
           \<and> followsTddPattern (summary cv))"
proof -
  obtain content where c: "spec_generateTestContent (sample_runtime []) ''Button'' (requirements_of sample_answers)
      None = Inr content"
    by (simp add: spec_generateTestContent_def)
  have "''Given a, when b, then c'' \<in> set (acceptanceCriteria (requirements_of sample_answers))"
    by (simp add: requirements_of_def sample_answers_def)
  with generated_tests_follow_tdd_pattern [OF c] c show ?thesis by blast
qed

section \<open>Determinism of the generated text\<close>

text \<open>The generator, as specified, takes nothing from the runtime but \<open>toLowerCase\<close>.\<close>

lemma acceptance_test_runtime:
  assumes "toLowerCase rt = toLowerCase rt'"
  shows "acceptance_test rt name = acceptance_test rt' name"
  using assms by (simp add: acceptance_test_def fun_eq_iff)

lemma spec_generateTestContent_runtime:
  assumes "toLowerCase rt = toLowerCase rt'"
  shows "spec_generateTestContent rt name r meta = spec_generateTestContent rt' name r meta"
  by (simp add: spec_generateTestContent_def acceptance_group_def
      acceptance_test_runtime [OF assms])

text \<open>
  C4. Generation is deterministic. The scaffold script: a successful run leaves exactly
  \<open>testTemplate\<close> and \<open>componentTemplate\<close> of the component name and the issue
  description in the two files, so two successful runs with the same name and description
  write identical contents, whatever the directories, the filesystems, the clocks and the
  random numbers of the two runs (\<open>toLowerCase\<close> being the same function in both). The
  generator, as the specification describes it: two calls with the same component name,
  requirements and metadata return the same text, or the same error, whatever the clocks
  and the random numbers of the runtimes they are made in.
\<close>

theorem generated_text_deterministic:
  assumes "exit_code (create_tdd_component rt dirname argv fs) = 0"
    and "exit_code (create_tdd_component rt' dirname' argv' fs') = 0"
    and "array_get argv 2 = Some name" and "array_get argv' 2 = Some name"
    and "issueDescription_of argv = issueDescription_of argv'"
    and "toLowerCase rt = toLowerCase rt'"
  shows "entries (disk (create_tdd_component rt dirname argv fs)) (testFile dirname name)
       = Some (File (testTemplate rt name (issueDescription_of argv)))
     \<and> entries (disk (create_tdd_component rt dirname argv fs)) (componentFile dirname name)
       = Some (File (componentTemplate rt name))
     \<and> entries (disk (create_tdd_component rt' dirname' argv' fs')) (testFile dirname' name)
       = entries (disk (create_tdd_component rt dirname argv fs)) (testFile dirname name)
     \<and> entries (disk (create_tdd_component rt' dirname' argv' fs'))
         (componentFile dirname' name)
       = entries (disk (create_tdd_component rt dirname argv fs)) (componentFile dirname name)
     \<and> spec_generateTestContent rt' cname r meta
       = spec_generateTestContent rt cname r meta"
proof -
  from scaffold_success [OF assms(1,3)] obtain fs1 where
    1: "disk (create_tdd_component rt dirname argv fs)
         = fs1\<lparr> entries := (entries fs1)
               (testFile dirname name \<mapsto> File (testTemplate rt name (issueDescription_of argv)),
                componentFile dirname name \<mapsto> File (componentTemplate rt name)) \<rparr>"
    by blast
  from scaffold_success [OF assms(2,4)] obtain fs1' where
    2: "disk (create_tdd_component rt' dirname' argv' fs')
         = fs1'\<lparr> entries := (entries fs1')
               (testFile dirname' name
                  \<mapsto> File (testTemplate rt' name (issueDescription_of argv')),
                componentFile dirname' name \<mapsto> File (componentTemplate rt' name)) \<rparr>"
    by blast
  have "spec_generateTestContent rt' cname r meta
      = spec_generateTestContent rt cname r meta"
    by (rule spec_generateTestContent_runtime [OF assms(6), symmetric])
  then show ?thesis
    unfolding 1 2
    using testFile_neq_componentFile assms(5) templates_runtime [OF assms(6)] by simp
qed

theorem generated_text_deterministic_witness:
  "exit_code (create_tdd_component (sample_runtime ''2024-05-01T10:20:30.456Z'')
      ''/repo/scripts'' [''node'', ''create-tdd-component.js'', ''Button''] fresh_checkout) = 0
   \<and> exit_code (create_tdd_component
        ((sample_runtime ''1999-12-31T23:59:59.000Z'')\<lparr> random := [4, 2] \<rparr>)
        ''/work/scripts''
        [''node'', ''create-tdd-component.js'', ''Button'', ''Issue: Button Component'']
        \<lparr> entries = Map.empty, failing = {}, io_error = permission_denied \<rparr>) = 0
   \<and> issueDescription_of [''node'', ''create-tdd-component.js'', ''Button'']
     = issueDescription_of
         [''node'', ''create-tdd-component.js'', ''Button'', ''Issue: Button Component'']
   \<and> toLowerCase (sample_runtime ''2024-05-01T10:20:30.456Z'')
     = toLowerCase ((sample_runtime ''1999-12-31T23:59:59.000Z'')\<lparr> random := [4, 2] \<rparr>)
   \<and> entries (disk (create_tdd_component (sample_runtime ''2024-05-01T10:20:30.456Z'')
         ''/repo/scripts'' [''node'', ''create-tdd-component.js'', ''Button'']
         fresh_checkout))
       (testFile ''/repo/scripts'' ''Button'')
     = Some (File (testTemplate (sample_runtime ''2024-05-01T10:20:30.456Z'') ''Button''
                     ''Issue: Button Component''))
   \<and> entries (disk (create_tdd_component
         ((sample_runtime ''1999-12-31T23:59:59.000Z'')\<lparr> random := [4, 2] \<rparr>)
         ''/work/scripts''
         [''node'', ''create-tdd-component.js'', ''Button'', ''Issue: Button Component'']
         \<lparr> entries = Map.empty, failing = {}, io_error = permission_denied \<rparr>))
       (testFile ''/work/scripts'' ''Button'')
     = Some (File (testTemplate (sample_runtime ''2024-05-01T10:20:30.456Z'') ''Button''
                     ''Issue: Button Component''))
   \<and> spec_generateTestContent
         ((sample_runtime ''1999-12-31T23:59:59.000Z'')\<lparr> random := [4, 2] \<rparr>)
         ''Button'' (requirements_of sample_answers) None
     = spec_generateTestContent (sample_runtime ''2024-05-01T10:20:30.456Z'')
         ''Button'' (requirements_of sample_answers) None"
proof -
  have e1: "exit_code (create_tdd_component (sample_runtime ''2024-05-01T10:20:30.456Z'')
      ''/repo/scripts'' [''node'', ''create-tdd-component.js'', ''Button''] fresh_checkout) = 0"
    by code_simp
  have e2: "exit_code (create_tdd_component
        ((sample_runtime ''1999-12-31T23:59:59.000Z'')\<lparr> random := [4, 2] \<rparr>)
        ''/work/scripts''
        [''node'', ''create-tdd-component.js'', ''Button'', ''Issue: Button Component'']
        \<lparr> entries = Map.empty, failing = {}, io_error = permission_denied \<rparr>) = 0"
    by code_simp
  have a1: "array_get [''node'', ''create-tdd-component.js'', ''Button''] 2 = Some ''Button''"
    by (simp add: array_get_def)
  have a2: "array_get [''node'', ''create-tdd-component.js'', ''Button'',
      ''Issue: Button Component''] 2 = Some ''Button''"
    by (simp add: array_get_def)
  have d: "issueDescription_of [''node'', ''create-tdd-component.js'', ''Button'']
     = issueDescription_of
         [''node'', ''create-tdd-component.js'', ''Button'', ''Issue: Button Component'']"
    by (simp add: issueDescription_of_def or_else_def array_get_def interpolate_def)
  have d1: "issueDescription_of [''node'', ''create-tdd-component.js'', ''Button'']
     = ''Issue: Button Component''"
    by (simp add: issueDescription_of_def or_else_def array_get_def interpolate_def)
  have l: "toLowerCase (sample_runtime ''2024-05-01T10:20:30.456Z'')
     = toLowerCase ((sample_runtime ''1999-12-31T23:59:59.000Z'')\<lparr> random := [4, 2] \<rparr>)"
    by (simp add: sample_runtime_def)
  note th = generated_text_deterministic [OF e1 e2 a1 a2 d l,
      of "''Button''" "requirements_of sample_answers" None]
  from th [THEN conjunct1] th [THEN conjunct2, THEN conjunct2, THEN conjunct1]
    th [THEN conjunct2, THEN conjunct2, THEN conjunct2, THEN conjunct2] e1 e2 d d1 l
  show ?thesis by simp
qed

end
